theory Spec2Isabelle
  imports Complex_Main
begin

section \<open>Data model of \<open>src/index.ts\<close>\<close>

text \<open>
  The TypeScript type \<open>number\<close> is modelled by exact rationals: prices, costs and
  quantities arrive as JSON numbers and may be fractional. Rounding of the underlying
  binary floating point is not modelled. An optional field \<open>f?: T\<close> is a field of type
  \<open>T option\<close>. Field names that several interfaces share, or that are names of the
  logic already, carry a prefix for their interface (\<open>m_\<close> Material, \<open>s_\<close> SizeOption,
  \<open>p_\<close> Product, \<open>i_\<close> OrderItem, \<open>o_\<close> Order, \<open>c_\<close> Category, \<open>cu_\<close> Customer,
  \<open>t_\<close> Topping, \<open>g_\<close> MaterialGroupEntry, \<open>h_\<close> StockHistory, \<open>u_\<close> staged update,
  \<open>b_\<close>, \<open>sb_\<close> and \<open>cp_\<close> request bodies); \<open>uid\<close>, \<open>cost\<close> and the other unshared
  names are kept. Wall-clock fields (\<open>date\<close>) are left out: no operation below reads
  them.
\<close>

type_synonym number = rat

record Material =
  uid :: string
  m_name :: string
  cost :: number
  m_quantity :: number

record Topping =
  t_materialId :: string
  t_name :: string
  t_price :: number
  isActive :: bool

record SizeOption =
  s_name :: string
  s_price :: number
  s_quantity :: number
  s_materials :: "Material list"
  productionCost :: "number option"
  profit :: "number option"

record StockHistory =
  totalStockBefore :: number
  addedStock :: number
  totalStockAfter :: number
  h_notes :: string
  sizeName :: string

text \<open>The type \<open>StockHistory & { productId; productName; sizeName }\<close> of a stock log entry.\<close>

record StockLog = StockHistory +
  productId :: string
  productName :: string

record MaterialGroupEntry =
  g_materialId :: string
  priceMaterial :: number
  g_name :: string

text \<open>
  A stored inventory document. \<open>totalQuantity\<close> is not part of the interface \<open>Product\<close>;
  the order transaction writes it into the document next to \<open>sizes\<close>.
\<close>

record Product =
  p_name :: string
  description :: "string option"
  categoryId :: string
  sizes :: "SizeOption list"
  images :: "string list"
  materialsGroup :: "MaterialGroupEntry list option"
  toppings :: "Topping list option"
  stockHistory :: "StockHistory list option"
  totalQuantity :: "number option"

record Category =
  c_id :: "string option"
  c_name :: string
  c_image :: string
  position :: "number option"

record Customer =
  phoneNumber :: string
  cu_name :: string
  photo :: "string option"
  gender :: "string option"
  email :: "string option"
  address :: "string option"
  cu_notes :: "string option"
  ordersCount :: number

record OrderItem =
  i_productId :: string
  i_name :: string
  i_price :: number
  i_quantity :: number
  subtotal :: number
  i_materials :: "Material list"

record Order =
  o_items :: "OrderItem list"
  paymentMethod :: string
  o_total :: number
  o_productionCost :: number
  customerId :: "string option"

text \<open>
  The document store. \<open>inventory\<close>, \<open>customers\<close> and \<open>orders\<close> are only accessed by
  document id, so they are maps. \<open>stockLogs\<close> only ever receives new documents under
  generated ids, so it is the list of the entries in the order they were written.
  \<open>categories\<close> is read as a whole collection, so it is an association list from
  document id to document, in the order the collection snapshot lists them.
  Document ids are non-empty strings. The client throws on a reference with the empty
  id; where a handler builds a reference from an id of the request and reads it (the
  products and materials of an order), the model reports the document as not found,
  which is an abort without writes as well.
\<close>

record DB =
  inventory :: "string \<rightharpoonup> Product"
  customers :: "string \<rightharpoonup> Customer"
  orders :: "string \<rightharpoonup> Order"
  stockLogs :: "StockLog list"
  categories :: "(string \<times> Category) list"

text \<open>
  Every failure site of the modelled endpoints is one constructor; the argument is the
  value the source interpolates into the message. The comment gives the HTTP status.
  The last three are raised by the Firestore client, which the handlers call without
  \<open>ignoreUndefinedProperties\<close>: it refuses to write a document that has a field with
  the value \<open>undefined\<close>, inside a transaction it refuses a read once a write has been
  staged, and it refuses the empty string as a document id. The handler that makes the
  call reports the exception like any other (status 500, or 400 in POST /orders).
\<close>

datatype error =
    MissingName                       \<comment> \<open>400, POST and PUT /products\<close>
  | MissingCategory                   \<comment> \<open>400\<close>
  | MissingSizes                      \<comment> \<open>400\<close>
  | DescriptionTooLong                \<comment> \<open>400\<close>
  | MaterialsNotAllowed               \<comment> \<open>400\<close>
  | ToppingsNotAllowed                \<comment> \<open>400\<close>
  | InvalidTopping                    \<comment> \<open>400\<close>
  | ProductNotFound string            \<comment> \<open>404 (products), thrown in the order transaction (400)\<close>
  | MissingSizeName                   \<comment> \<open>400, PATCH /products/:id/stock\<close>
  | NegativeStock string              \<comment> \<open>thrown, 500: "Stock negativo no permitido ..."\<close>
  | StockSizeNotFound                 \<comment> \<open>404\<close>
  | MissingOrderData                  \<comment> \<open>400, POST /orders: "Faltan datos del pedido."\<close>
  | CustomerNotFound string           \<comment> \<open>thrown, 400: "Cliente no encontrado: ..."\<close>
  | InsufficientStock string          \<comment> \<open>thrown, 400: "Stock insuficiente para ..."\<close>
  | SizeNotFound string               \<comment> \<open>thrown, 400\<close>
  | MaterialNotFound string           \<comment> \<open>thrown, 400: "Material no encontrado: ..."\<close>
  | InsufficientMaterialStock string  \<comment> \<open>thrown, 400: "Stock insuficiente para el material ..."\<close>
  | InvalidCategories                 \<comment> \<open>400, PATCH /categories/positions\<close>
  | InvalidCategoryEntry              \<comment> \<open>400\<close>
  | CategoryNotFound string           \<comment> \<open>thrown, 500\<close>
  | UndefinedValue string             \<comment> \<open>thrown by the store client on a write, argument: the field\<close>
  | ReadAfterWrite                    \<comment> \<open>thrown by the store client on a read in a transaction\<close>
  | EmptyDocumentPath                 \<comment> \<open>thrown by the store client on \<open>doc('')\<close>\<close>

text \<open>JavaScript truthiness of an optional string: defined and not empty.\<close>

definition truthy :: "string option \<Rightarrow> bool" where
  "truthy s = (case s of None \<Rightarrow> False | Some v \<Rightarrow> v \<noteq> [])"

text \<open>
  \<open>Array.prototype.map\<close> with a callback that may throw: the elements are visited in
  order and the first exception abandons the whole map.
\<close>

fun mapE :: "('a \<Rightarrow> error + 'b) \<Rightarrow> 'a list \<Rightarrow> error + 'b list" where
  "mapE f [] = Inr []"
| "mapE f (x # xs) =
     (case f x of
        Inl e \<Rightarrow> Inl e
      | Inr y \<Rightarrow> (case mapE f xs of Inl e \<Rightarrow> Inl e | Inr ys \<Rightarrow> Inr (y # ys)))"

section \<open>POST /products and PUT /products/:id\<close>

record ProductBody =
  b_name :: "string option"
  b_description :: "string option"
  b_categoryId :: "string option"
  b_sizes :: "SizeOption list option"
  b_images :: "string list option"
  b_materialsGroup :: "MaterialGroupEntry list option"
  b_toppings :: "Topping list option"

definition materialCategoryId :: string where
  "materialCategoryId = ''bsOZn7qdIizNleZ41Xs2''"

definition toppingCategoryId :: string where
  "toppingCategoryId = ''NlMwnKfHw8PgUFDAFxlB''"

text \<open>The reduce of lines 177-180 and 243-246, written as the left fold it is.\<close>

definition sizeProductionCost :: "SizeOption \<Rightarrow> number" where
  "sizeProductionCost sz =
     foldl (\<lambda>acc material.
              acc + cost material * (if m_quantity material > 0 then m_quantity material else 1))
           0 (s_materials sz)"

definition processedSizes :: "SizeOption list \<Rightarrow> SizeOption list" where
  "processedSizes szs =
     map (\<lambda>sz.
            let pc = sizeProductionCost sz;
                pf = s_price sz - pc
            in sz\<lparr>productionCost := Some pc, profit := Some pf\<rparr>) szs"

definition invalidTopping :: "Topping \<Rightarrow> bool" where
  "invalidTopping topping =
     (t_materialId topping = [] \<or> t_name topping = [] \<or> t_price topping < 0)"

text \<open>The checks both endpoints run on the body, in the order of the source.\<close>

definition validateProductBody :: "ProductBody \<Rightarrow> error + (string \<times> string \<times> SizeOption list)" where
  "validateProductBody body =
     (if \<not> truthy (b_name body) then Inl MissingName
      else if \<not> truthy (b_categoryId body) then Inl MissingCategory
      else case b_sizes body of
        None \<Rightarrow> Inl MissingSizes
      | Some szs \<Rightarrow>
          if length szs = 0 then Inl MissingSizes
          else if (case b_description body of None \<Rightarrow> False | Some d \<Rightarrow> d \<noteq> [] \<and> length d > 500)
            then Inl DescriptionTooLong
          else if (the (b_categoryId body) = materialCategoryId
                   \<or> the (b_categoryId body) = toppingCategoryId)
                  \<and> list_ex (\<lambda>sz. length (s_materials sz) > 0) szs
            then Inl MaterialsNotAllowed
          else if (the (b_categoryId body) = materialCategoryId
                   \<or> the (b_categoryId body) = toppingCategoryId)
                  \<and> (case b_toppings body of None \<Rightarrow> False | Some ts \<Rightarrow> length ts > 0)
            then Inl ToppingsNotAllowed
          else if (case b_toppings body of None \<Rightarrow> False | Some ts \<Rightarrow> list_ex invalidTopping ts)
            then Inl InvalidTopping
          else Inr (the (b_name body), the (b_categoryId body), szs))"

text \<open>
  \<open>createProduct\<close> is POST /products; \<open>newId\<close> is the id the store generates for the
  added document. Line 187 gives the new product the field \<open>description: undefined\<close>
  when the request has no description or an empty one, and \<open>collection.add\<close> then throws:
  nothing is stored.
\<close>

definition createProduct :: "DB \<Rightarrow> string \<Rightarrow> ProductBody \<Rightarrow> DB \<times> (error + string \<times> Product)" where
  "createProduct db newId body =
     (case validateProductBody body of
        Inl e \<Rightarrow> (db, Inl e)
      | Inr (name, catId, szs) \<Rightarrow>
          let newProduct =
                \<lparr> p_name = name,
                  description = (if truthy (b_description body) then b_description body else None),
                  categoryId = catId,
                  sizes = processedSizes szs,
                  images = (case b_images body of None \<Rightarrow> [] | Some i \<Rightarrow> i),
                  materialsGroup = Some (case b_materialsGroup body of None \<Rightarrow> [] | Some g \<Rightarrow> g),
                  toppings = Some (case b_toppings body of None \<Rightarrow> [] | Some t \<Rightarrow> t),
                  stockHistory = Some [],
                  totalQuantity = None \<rparr>
          in if description newProduct = None then (db, Inl (UndefinedValue ''description''))
             else (db\<lparr>inventory := (inventory db)(newId \<mapsto> newProduct)\<rparr>, Inr (newId, newProduct)))"

text \<open>
  \<open>updateProduct\<close> is PUT /products/:id. \<open>updatedProduct\<close> is the object the handler
  builds and returns. Its \<open>description\<close> is \<open>undefined\<close> when neither the request nor the
  stored product has a non-empty one (line 260), and \<open>set\<close> then throws. Otherwise the
  object is written with \<open>merge: true\<close>: the field it does not have (\<open>totalQuantity\<close>)
  keeps its stored value.
\<close>

definition updateProduct :: "DB \<Rightarrow> string \<Rightarrow> ProductBody \<Rightarrow> DB \<times> (error + string \<times> Product)" where
  "updateProduct db pid body =
     (case validateProductBody body of
        Inl e \<Rightarrow> (db, Inl e)
      | Inr (name, catId, szs) \<Rightarrow>
          (case inventory db pid of
             None \<Rightarrow> (db, Inl (ProductNotFound pid))
           | Some existingProduct \<Rightarrow>
               let updatedProduct =
                     \<lparr> p_name = name,
                       description =
                         (if truthy (b_description body) then b_description body
                          else if truthy (description existingProduct) then description existingProduct
                          else None),
                       categoryId = catId,
                       sizes = processedSizes szs,
                       images = (case b_images body of None \<Rightarrow> images existingProduct | Some i \<Rightarrow> i),
                       materialsGroup =
                         Some (case b_materialsGroup body of
                                 Some g \<Rightarrow> g
                               | None \<Rightarrow> (case materialsGroup existingProduct of None \<Rightarrow> [] | Some g \<Rightarrow> g)),
                       toppings =
                         Some (case b_toppings body of
                                 Some t \<Rightarrow> t
                               | None \<Rightarrow> (case toppings existingProduct of None \<Rightarrow> [] | Some t \<Rightarrow> t)),
                       stockHistory =
                         Some (case stockHistory existingProduct of None \<Rightarrow> [] | Some h \<Rightarrow> h),
                       totalQuantity = None \<rparr>;
                   merged = updatedProduct\<lparr>totalQuantity := totalQuantity existingProduct\<rparr>
               in if description updatedProduct = None
                  then (db, Inl (UndefinedValue ''description''))
                  else (db\<lparr>inventory := (inventory db)(pid \<mapsto> merged)\<rparr>, Inr (pid, updatedProduct))))"

section \<open>PATCH /products/:id/stock\<close>

text \<open>The body of the request; \<open>quantityDelta\<close> is taken to be a number.\<close>

record StockBody =
  sb_sizeName :: "string option"
  quantityDelta :: number
  sb_notes :: "string option"

text \<open>The callback of the map of lines 329-341.\<close>

definition adjustSize :: "string \<Rightarrow> number \<Rightarrow> SizeOption \<Rightarrow> error + SizeOption" where
  "adjustSize szName delta sz =
     (if s_name sz = szName then
        (let newQuantity = s_quantity sz + delta
         in if newQuantity < 0 then Inl (NegativeStock szName)
            else
              let prodCost = foldl (\<lambda>acc m. acc + cost m * m_quantity m) 0 (s_materials sz);
                  pf = s_price sz - prodCost
              in Inr (sz\<lparr>s_quantity := newQuantity, productionCost := Some prodCost,
                         profit := Some pf\<rparr>))
      else Inr sz)"

text \<open>
  \<open>adjustStock\<close> is the whole handler. The flag \<open>sizeFound\<close> is set by the callback
  whenever a size has the requested name, so after a map that did not throw it is true
  exactly when some size has that name.
\<close>

definition adjustStock :: "DB \<Rightarrow> string \<Rightarrow> StockBody \<Rightarrow> DB \<times> (error + SizeOption list \<times> StockLog)" where
  "adjustStock db pid body =
     (if \<not> truthy (sb_sizeName body) then (db, Inl MissingSizeName)
      else
        let szName = the (sb_sizeName body)
        in case inventory db pid of
             None \<Rightarrow> (db, Inl (ProductNotFound pid))
           | Some productData \<Rightarrow>
               (case mapE (adjustSize szName (quantityDelta body)) (sizes productData) of
                  Inl e \<Rightarrow> (db, Inl e)
                | Inr updatedSizes \<Rightarrow>
                    if \<not> list_ex (\<lambda>sz. s_name sz = szName) (sizes productData)
                    then (db, Inl StockSizeNotFound)
                    else
                      let logEntry =
                            \<lparr> totalStockBefore =
                                (case find (\<lambda>s. s_name s = szName) (sizes productData) of
                                   None \<Rightarrow> 0 | Some s \<Rightarrow> s_quantity s),
                              addedStock = quantityDelta body,
                              totalStockAfter =
                                (case find (\<lambda>s. s_name s = szName) updatedSizes of
                                   None \<Rightarrow> 0 | Some s \<Rightarrow> s_quantity s),
                              h_notes = (if truthy (sb_notes body) then the (sb_notes body) else []),
                              sizeName = szName,
                              productId = pid,
                              productName = p_name productData \<rparr>
                      in (db\<lparr>inventory := (inventory db)(pid \<mapsto> productData\<lparr>sizes := updatedSizes\<rparr>),
                             stockLogs := stockLogs db @ [logEntry]\<rparr>,
                          Inr (updatedSizes, logEntry))))"

section \<open>POST /orders\<close>

record OrderBody =
  b_items :: "OrderItem list option"
  b_paymentMethod :: "string option"
  b_total :: "number option"
  b_customerId :: "string option"

text \<open>The objects \<open>{ ref, sizes, totalQuantity }\<close> pushed to the two update arrays.\<close>

record StockUpdate =
  u_ref :: string
  u_sizes :: "SizeOption list"
  u_totalQuantity :: number

text \<open>
  The three arrays local to the transaction callback. \<open>stagedLogs\<close> is the local array
  \<open>stockLogs\<close>, renamed apart from the collection of the same name.
\<close>

record Staged =
  productUpdates :: "StockUpdate list"
  materialUpdates :: "StockUpdate list"
  stagedLogs :: "StockLog list"

text \<open>Lines 402-407: the two nested reduces.\<close>

definition itemCost :: "OrderItem \<Rightarrow> number" where
  "itemCost item =
     foldl (\<lambda>acc material.
              acc + cost material * (if m_quantity material > 0 then m_quantity material else 1)
                    * i_quantity item)
           0 (i_materials item)"

definition orderProductionCost :: "OrderItem list \<Rightarrow> number" where
  "orderProductionCost items = foldl (\<lambda>totalCost item. totalCost + itemCost item) 0 items"

text \<open>Lines 442-451: the callback that checks and decrements the ordered size.\<close>

definition deductSize :: "OrderItem \<Rightarrow> SizeOption \<Rightarrow> error + SizeOption" where
  "deductSize item sz =
     (if s_name sz = i_name item then
        (if s_quantity sz < i_quantity item then Inl (InsufficientStock (i_name item))
         else Inr (sz\<lparr>s_quantity := s_quantity sz - i_quantity item\<rparr>))
      else Inr sz)"

text \<open>Lines 465-471: the callback applied to every size of a material's product.\<close>

definition deductMaterial :: "Material \<Rightarrow> OrderItem \<Rightarrow> SizeOption \<Rightarrow> error + SizeOption" where
  "deductMaterial material item sz =
     (let newQuantity = s_quantity sz - m_quantity material * i_quantity item
      in if newQuantity < 0 then Inl (InsufficientMaterialStock (m_name material))
         else Inr (sz\<lparr>s_quantity := newQuantity\<rparr>))"

definition sumQuantity :: "SizeOption list \<Rightarrow> number" where
  "sumQuantity szs = foldl (\<lambda>acc s. acc + s_quantity s) 0 szs"

text \<open>
  Lines 475-484. \<open>xs[0]?.quantity ?? 0\<close> is the quantity of the first size, and 0 for a
  product without sizes; \<open>xs[0]?.name || "Default"\<close> falls back on a missing or empty name.
\<close>

definition materialLogEntry ::
    "string \<Rightarrow> Material \<Rightarrow> OrderItem \<Rightarrow> Product \<Rightarrow> SizeOption list \<Rightarrow> StockLog" where
  "materialLogEntry orderId material item materialProduct materialSizes =
     \<lparr> totalStockBefore = (case sizes materialProduct of [] \<Rightarrow> 0 | s # _ \<Rightarrow> s_quantity s),
       addedStock = - (m_quantity material * i_quantity item),
       totalStockAfter = (case materialSizes of [] \<Rightarrow> 0 | s # _ \<Rightarrow> s_quantity s),
       h_notes = ''Deducci'' @ [CHR 0xF3] @ ''n por orden '' @ orderId,
       sizeName = (case sizes materialProduct of
                     [] \<Rightarrow> ''Default''
                   | s # _ \<Rightarrow> if s_name s = [] then ''Default'' else s_name s),
       productId = uid material,
       productName = m_name material \<rparr>"

text \<open>
  Lines 458-486, the inner loop over the materials of one item. Every read goes to the
  store as it was when the transaction began (\<open>db\<close>); nothing is written before the loops
  are over.
\<close>

fun processMaterials :: "DB \<Rightarrow> string \<Rightarrow> OrderItem \<Rightarrow> Staged \<Rightarrow> Material list \<Rightarrow> error + Staged" where
  "processMaterials db orderId item st [] = Inr st"
| "processMaterials db orderId item st (material # rest) =
     (case inventory db (uid material) of
        None \<Rightarrow> Inl (MaterialNotFound (uid material))
      | Some materialProduct \<Rightarrow>
          (case mapE (deductMaterial material item) (sizes materialProduct) of
             Inl e \<Rightarrow> Inl e
           | Inr materialSizes \<Rightarrow>
               processMaterials db orderId item
                 (st\<lparr>materialUpdates := materialUpdates st @
                        [\<lparr>u_ref = uid material, u_sizes = materialSizes,
                          u_totalQuantity = sumQuantity materialSizes\<rparr>],
                     stagedLogs := stagedLogs st @
                        [materialLogEntry orderId material item materialProduct materialSizes]\<rparr>)
                 rest))"

text \<open>Lines 433-487, the body of the loop over the items.\<close>

definition processItem :: "DB \<Rightarrow> string \<Rightarrow> Staged \<Rightarrow> OrderItem \<Rightarrow> error + Staged" where
  "processItem db orderId st item =
     (case inventory db (i_productId item) of
        None \<Rightarrow> Inl (ProductNotFound (i_productId item))
      | Some product \<Rightarrow>
          (case mapE (deductSize item) (sizes product) of
             Inl e \<Rightarrow> Inl e
           | Inr updatedSizes \<Rightarrow>
               if \<not> list_ex (\<lambda>sz. s_name sz = i_name item) (sizes product)
               then Inl (SizeNotFound (i_name item))
               else
                 processMaterials db orderId item
                   (st\<lparr>productUpdates := productUpdates st @
                          [\<lparr>u_ref = i_productId item, u_sizes = updatedSizes,
                            u_totalQuantity = sumQuantity updatedSizes\<rparr>]\<rparr>)
                   (i_materials item)))"

fun processItems :: "DB \<Rightarrow> string \<Rightarrow> Staged \<Rightarrow> OrderItem list \<Rightarrow> error + Staged" where
  "processItems db orderId st [] = Inr st"
| "processItems db orderId st (item # rest) =
     (case processItem db orderId st item of
        Inl e \<Rightarrow> Inl e
      | Inr st' \<Rightarrow> processItems db orderId st' rest)"

text \<open>
  \<open>transaction.update(ref, { sizes, totalQuantity })\<close>: the two fields of the document are
  replaced. Every \<open>ref\<close> staged by the loops was read as existing in the same
  transaction.
\<close>

definition applyUpdate :: "(string \<rightharpoonup> Product) \<Rightarrow> StockUpdate \<Rightarrow> (string \<rightharpoonup> Product)" where
  "applyUpdate docs u =
     (case docs (u_ref u) of
        None \<Rightarrow> docs
      | Some p \<Rightarrow> docs(u_ref u \<mapsto> p\<lparr>sizes := u_sizes u, totalQuantity := Some (u_totalQuantity u)\<rparr>))"

text \<open>
  The transaction callback of lines 419-504: the customer check, the loops, and then the
  writes in the order the source issues them. All reads come before the first write.
  The first write (line 489) is the order document; \<open>orderData\<close> has the field
  \<open>customerId: undefined\<close> when the request has no \<open>customerId\<close> (line 414), and the
  write then throws. The callback returns the store after the writes, or the error
  thrown before any of them takes effect.
\<close>

definition orderTransaction :: "string \<Rightarrow> Order \<Rightarrow> DB \<Rightarrow> error + DB" where
  "orderTransaction orderId orderData db =
     (if truthy (customerId orderData) \<and> customers db (the (customerId orderData)) = None
      then Inl (CustomerNotFound (the (customerId orderData)))
      else
        case processItems db orderId \<lparr>productUpdates = [], materialUpdates = [], stagedLogs = []\<rparr>
               (o_items orderData) of
          Inl e \<Rightarrow> Inl e
        | Inr st \<Rightarrow>
            if customerId orderData = None then Inl (UndefinedValue ''customerId'')
            else
            Inr (db\<lparr> orders := (orders db)(orderId \<mapsto> orderData),
                    inventory :=
                      foldl applyUpdate (foldl applyUpdate (inventory db) (productUpdates st))
                        (materialUpdates st),
                    stockLogs := stockLogs db @ stagedLogs st,
                    customers :=
                      (if truthy (customerId orderData) then
                         (case customers db (the (customerId orderData)) of
                            None \<Rightarrow> customers db
                          | Some c \<Rightarrow>
                              (customers db)(the (customerId orderData) \<mapsto>
                                 c\<lparr>ordersCount := ordersCount c + 1\<rparr>))
                       else customers db) \<rparr>))"

text \<open>
  \<open>db.runTransaction\<close>: a callback that throws leaves the store as it was, a callback
  that returns has all its writes applied. Every read returns the document as it was
  when the transaction began. The exceptions of the client itself (an undefined field
  value in a write, a read after a write) are thrown inside the callbacks, at the call
  that causes them.
\<close>

definition runTransaction :: "DB \<Rightarrow> (DB \<Rightarrow> error + DB) \<Rightarrow> DB \<times> (error + unit)" where
  "runTransaction db callback =
     (case callback db of Inl e \<Rightarrow> (db, Inl e) | Inr db' \<Rightarrow> (db', Inr ()))"

text \<open>
  \<open>placeOrder\<close> is the handler of POST /orders; \<open>orderId\<close> is the id generated for
  \<open>orderRef\<close>. An empty array is truthy in JavaScript, so \<open>!items\<close> only rejects a missing
  \<open>items\<close>. The receipt is printed after the commit and cannot change the result.
\<close>

definition placeOrder :: "DB \<Rightarrow> string \<Rightarrow> OrderBody \<Rightarrow> DB \<times> (error + string)" where
  "placeOrder db orderId body =
     (case b_items body of
        None \<Rightarrow> (db, Inl MissingOrderData)
      | Some items \<Rightarrow>
          if \<not> truthy (b_paymentMethod body) \<or> b_total body = None
          then (db, Inl MissingOrderData)
          else
            let orderData =
                  \<lparr> o_items = items,
                    paymentMethod = the (b_paymentMethod body),
                    o_total = the (b_total body),
                    o_productionCost = orderProductionCost items,
                    customerId = b_customerId body \<rparr>
            in (case runTransaction db (orderTransaction orderId orderData) of
                  (db', Inl e) \<Rightarrow> (db', Inl e)
                | (db', Inr u) \<Rightarrow> (db', Inr orderId)))"

section \<open>PATCH /categories/positions\<close>

record CategoryPosition =
  cp_id :: string
  cp_position :: number

text \<open>
  \<open>transaction.set(ref, data, { merge: true })\<close> on the category collection: the fields of
  \<open>data\<close> replace those of the stored document, the fields \<open>data\<close> lacks stay, and a
  missing document is created.
\<close>

definition mergeCategory :: "Category \<Rightarrow> Category \<Rightarrow> Category" where
  "mergeCategory old data =
     \<lparr> c_id = (case c_id data of None \<Rightarrow> c_id old | Some i \<Rightarrow> Some i),
       c_name = c_name data,
       c_image = c_image data,
       position = (case position data of None \<Rightarrow> position old | Some p \<Rightarrow> Some p) \<rparr>"

definition setMerge :: "(string \<times> Category) list \<Rightarrow> string \<Rightarrow> Category \<Rightarrow> (string \<times> Category) list" where
  "setMerge cats k data =
     (case map_of cats k of
        None \<Rightarrow> cats @ [(k, data)]
      | Some old \<Rightarrow> map (\<lambda>(k', c). if k' = k then (k', mergeCategory c data) else (k', c)) cats)"

text \<open>
  Line 585: \<open>{ id: doc.id, ...doc.data() }\<close>. The spread comes second, so an \<open>id\<close> field
  stored in the document wins over the document id.
\<close>

definition existingCategories :: "DB \<Rightarrow> Category list" where
  "existingCategories db =
     map (\<lambda>(k, d). d\<lparr>c_id := (case c_id d of None \<Rightarrow> Some k | Some i \<Rightarrow> Some i)\<rparr>) (categories db)"

text \<open>
  Lines 589-604. \<open>db\<close> is the store when the transaction began, which the reads see;
  \<open>cats\<close> is the collection with the writes staged so far, and \<open>written\<close> says whether
  a write has been staged. Each round reads (line 591) and then writes (line 596), so the
  read of the second round follows a write and the client throws.
\<close>

fun assignPositions ::
    "DB \<Rightarrow> bool \<Rightarrow> (string \<times> Category) list \<Rightarrow> CategoryPosition list
       \<Rightarrow> error + (string \<times> Category) list" where
  "assignPositions db written cats [] = Inr cats"
| "assignPositions db written cats (cat # rest) =
     (if written then Inl ReadAfterWrite
      else
        case map_of (categories db) (cp_id cat) of
          None \<Rightarrow> Inl (CategoryNotFound (cp_id cat))
        | Some currentData \<Rightarrow>
            assignPositions db True
              (setMerge cats (cp_id cat) (currentData\<lparr>position := Some (cp_position cat)\<rparr>)) rest)"

text \<open>
  Lines 606-620; \<open>assignments\<close> is the request's array \<open>categories\<close>. This loop only
  writes. A category whose \<open>id\<close> is the empty string has its reference built by
  \<open>doc('')\<close> (line 609), which throws.
\<close>

fun fallbackPositions ::
    "CategoryPosition list \<Rightarrow> (string \<times> Category) list \<Rightarrow> Category list
       \<Rightarrow> error + (string \<times> Category) list" where
  "fallbackPositions assignments cats [] = Inr cats"
| "fallbackPositions assignments cats (existingCat # rest) =
     (if find (\<lambda>c. Some (cp_id c) = c_id existingCat) assignments = None then
        (let nextPosition = of_nat (length assignments)
         in if \<not> truthy (c_id existingCat) then Inl EmptyDocumentPath
            else fallbackPositions assignments
                   (setMerge cats (the (c_id existingCat))
                      (existingCat\<lparr>position := Some nextPosition\<rparr>))
                   rest)
      else fallbackPositions assignments cats rest)"

text \<open>
  The handler. The request type makes every \<open>position\<close> a number, so the entry check
  only rejects an empty \<open>id\<close>. The collection snapshot is taken before the transaction.
\<close>

definition reorderCategories :: "DB \<Rightarrow> CategoryPosition list option \<Rightarrow> DB \<times> (error + unit)" where
  "reorderCategories db body =
     (case body of
        None \<Rightarrow> (db, Inl InvalidCategories)
      | Some assignments \<Rightarrow>
          if length assignments = 0 then (db, Inl InvalidCategories)
          else if list_ex (\<lambda>cat. cp_id cat = []) assignments then (db, Inl InvalidCategoryEntry)
          else
            let existing = existingCategories db
            in runTransaction db
                 (\<lambda>d. case assignPositions d False (categories d) assignments of
                         Inl e \<Rightarrow> Inl e
                       | Inr staged \<Rightarrow>
                           (case fallbackPositions assignments staged existing of
                              Inl e \<Rightarrow> Inl e
                            | Inr cats \<Rightarrow> Inr (d\<lparr>categories := cats\<rparr>))))"

section \<open>Notions used to state the results\<close>

text \<open>
  None of the definitions of this section models a function of the source. They name
  what the loops of the order transaction stage, so that the lemmas below can describe
  a run of the loops by a closed formula.
\<close>

text \<open>A list of sizes with the same amount taken off every quantity.\<close>

definition decremented :: "number \<Rightarrow> SizeOption list \<Rightarrow> SizeOption list" where
  "decremented d szs = map (\<lambda>sz. sz\<lparr>s_quantity := s_quantity sz - d\<rparr>) szs"

text \<open>The pairs (item, material) in the order the two nested loops visit them.\<close>

definition materialRefs :: "OrderItem list \<Rightarrow> (OrderItem \<times> Material) list" where
  "materialRefs items = concat (map (\<lambda>item. map (\<lambda>material. (item, material)) (i_materials item)) items)"

text \<open>The update and the log entry the inner loop stages for one such pair.\<close>

definition stagedMaterialUpdate :: "DB \<Rightarrow> OrderItem \<times> Material \<Rightarrow> StockUpdate" where
  "stagedMaterialUpdate db r =
     (case r of (item, material) \<Rightarrow>
        let szs = decremented (m_quantity material * i_quantity item)
                    (sizes (the (inventory db (uid material))))
        in \<lparr>u_ref = uid material, u_sizes = szs, u_totalQuantity = sumQuantity szs\<rparr>)"

definition stagedMaterialLog :: "DB \<Rightarrow> string \<Rightarrow> OrderItem \<times> Material \<Rightarrow> StockLog" where
  "stagedMaterialLog db orderId r =
     (case r of (item, material) \<Rightarrow>
        materialLogEntry orderId material item (the (inventory db (uid material)))
          (decremented (m_quantity material * i_quantity item)
             (sizes (the (inventory db (uid material))))))"

text \<open>The inner loop passes a pair: the material's product exists and no size goes negative.\<close>

definition materialAvailable :: "DB \<Rightarrow> OrderItem \<times> Material \<Rightarrow> bool" where
  "materialAvailable db r =
     (case r of (item, material) \<Rightarrow>
        (case inventory db (uid material) of
           None \<Rightarrow> False
         | Some mp \<Rightarrow> list_all (\<lambda>sz. m_quantity material * i_quantity item \<le> s_quantity sz) (sizes mp)))"

text \<open>The checks of the outer loop on one item, and the update it stages.\<close>

definition itemAvailable :: "DB \<Rightarrow> OrderItem \<Rightarrow> bool" where
  "itemAvailable db item =
     (case inventory db (i_productId item) of
        None \<Rightarrow> False
      | Some p \<Rightarrow>
          list_all (\<lambda>sz. s_name sz = i_name item \<longrightarrow> i_quantity item \<le> s_quantity sz) (sizes p)
          \<and> list_ex (\<lambda>sz. s_name sz = i_name item) (sizes p))"

definition stagedProductUpdate :: "DB \<Rightarrow> OrderItem \<Rightarrow> StockUpdate" where
  "stagedProductUpdate db item =
     (let szs = map (\<lambda>sz. if s_name sz = i_name item
                           then sz\<lparr>s_quantity := s_quantity sz - i_quantity item\<rparr> else sz)
                    (sizes (the (inventory db (i_productId item))))
      in \<lparr>u_ref = i_productId item, u_sizes = szs, u_totalQuantity = sumQuantity szs\<rparr>)"

text \<open>The input check of POST /orders, the customer check, and the order document.\<close>

definition validOrderBody :: "OrderBody \<Rightarrow> bool" where
  "validOrderBody body \<longleftrightarrow>
     b_items body \<noteq> None \<and> truthy (b_paymentMethod body) \<and> b_total body \<noteq> None"

definition customerKnown :: "DB \<Rightarrow> OrderBody \<Rightarrow> bool" where
  "customerKnown db body \<longleftrightarrow>
     (truthy (b_customerId body) \<longrightarrow> customers db (the (b_customerId body)) \<noteq> None)"

definition orderDataOf :: "OrderBody \<Rightarrow> Order" where
  "orderDataOf body =
     \<lparr> o_items = the (b_items body),
       paymentMethod = the (b_paymentMethod body),
       o_total = the (b_total body),
       o_productionCost = orderProductionCost (the (b_items body)),
       customerId = b_customerId body \<rparr>"

definition emptyStaged :: Staged where
  "emptyStaged = \<lparr>productUpdates = [], materialUpdates = [], stagedLogs = []\<rparr>"

text \<open>
  The position stored for the category document \<open>k\<close>: \<open>None\<close> when there is no such
  document or when it has no position.
\<close>

definition positionOf :: "(string \<times> Category) list \<Rightarrow> string \<Rightarrow> number option" where
  "positionOf cats k = (case map_of cats k of None \<Rightarrow> None | Some c \<Rightarrow> position c)"

text \<open>The document a fallback write goes to, and whether a category is left out of the request.\<close>

definition fallbackTarget :: "Category \<Rightarrow> string" where
  "fallbackTarget c = the (c_id c)"

definition omitted :: "CategoryPosition list \<Rightarrow> Category \<Rightarrow> bool" where
  "omitted as c \<longleftrightarrow> find (\<lambda>a. Some (cp_id a) = c_id c) as = None"

section \<open>An example store\<close>

text \<open>
  A store with one product in two sizes, one material product in two sizes, one customer
  and three categories. The closed theorems below run the handlers on it. An order that
  is accepted carries a customer id and a product body that is stored carries a
  description, as the writes require.
\<close>

definition ex_material :: "number \<Rightarrow> Material" where
  "ex_material q = \<lparr>uid = ''m1'', m_name = ''vaso'', cost = 2, m_quantity = q\<rparr>"

definition ex_size :: "string \<Rightarrow> number \<Rightarrow> number \<Rightarrow> Material list \<Rightarrow> SizeOption" where
  "ex_size n p q ms =
     \<lparr>s_name = n, s_price = p, s_quantity = q, s_materials = ms, productionCost = None, profit = None\<rparr>"

definition ex_product :: "string \<Rightarrow> SizeOption list \<Rightarrow> Product" where
  "ex_product n szs =
     \<lparr>p_name = n, description = Some ''de temporada'', categoryId = ''c1'', sizes = szs, images = [],
      materialsGroup = Some [], toppings = Some [], stockHistory = Some [], totalQuantity = None\<rparr>"

definition ex_customer :: Customer where
  "ex_customer =
     \<lparr>phoneNumber = ''5550100'', cu_name = ''Ana'', photo = None, gender = None, email = None,
      address = None, cu_notes = None, ordersCount = 0\<rparr>"

definition ex_category :: "string \<Rightarrow> Category" where
  "ex_category n = \<lparr>c_id = None, c_name = n, c_image = [], position = None\<rparr>"

definition ex_db :: DB where
  "ex_db =
     \<lparr>inventory =
        [''p1'' \<mapsto> ex_product ''elote'' [ex_size ''chico'' 10 5 [ex_material 3], ex_size ''grande'' 15 3 [ex_material 0]],
         ''m1'' \<mapsto> ex_product ''vaso'' [ex_size ''caja'' 0 10 [], ex_size ''bolsa'' 0 10 []]],
      customers = [''c1'' \<mapsto> ex_customer],
      orders = Map.empty,
      stockLogs = [],
      categories = [(''A'', ex_category ''elotes''), (''B'', ex_category ''bebidas''),
                    (''C'', ex_category ''postres'')]\<rparr>"

definition ex_item :: "number \<Rightarrow> Material list \<Rightarrow> OrderItem" where
  "ex_item n ms =
     \<lparr>i_productId = ''p1'', i_name = ''chico'', i_price = 10, i_quantity = n, subtotal = 10 * n,
      i_materials = ms\<rparr>"

definition ex_item_grande :: "number \<Rightarrow> Material list \<Rightarrow> OrderItem" where
  "ex_item_grande n ms =
     \<lparr>i_productId = ''p1'', i_name = ''grande'', i_price = 15, i_quantity = n, subtotal = 15 * n,
      i_materials = ms\<rparr>"

definition ex_order :: "OrderItem list \<Rightarrow> string option \<Rightarrow> OrderBody" where
  "ex_order items cid =
     \<lparr>b_items = Some items, b_paymentMethod = Some ''efectivo'', b_total = Some 20, b_customerId = cid\<rparr>"

definition ex_productBody :: "SizeOption list \<Rightarrow> ProductBody" where
  "ex_productBody szs =
     \<lparr>b_name = Some ''esquite'', b_description = Some ''con chile'', b_categoryId = Some ''c1'',
      b_sizes = Some szs, b_images = None, b_materialsGroup = None, b_toppings = None\<rparr>"

lemmas ex_defs = ex_material_def ex_size_def ex_product_def ex_customer_def ex_category_def ex_db_def
  ex_item_def ex_item_grande_def ex_order_def

lemmas order_defs = placeOrder_def runTransaction_def orderTransaction_def processItem_def
  deductSize_def deductMaterial_def sumQuantity_def materialLogEntry_def applyUpdate_def
  orderProductionCost_def itemCost_def truthy_def Let_def

lemmas product_defs = createProduct_def updateProduct_def validateProductBody_def processedSizes_def
  sizeProductionCost_def invalidTopping_def materialCategoryId_def toppingCategoryId_def
  truthy_def Let_def

lemmas category_defs = reorderCategories_def runTransaction_def existingCategories_def
  setMerge_def mergeCategory_def truthy_def Let_def

lemmas stock_defs = adjustStock_def adjustSize_def truthy_def Let_def

section \<open>Auxiliary lemmas\<close>

subsection \<open>The loops of the order transaction\<close>

lemma mapE_Inr_iff:
  "mapE f xs = Inr ys \<longleftrightarrow> (\<forall>x\<in>set xs. \<exists>y. f x = Inr y) \<and> ys = map (\<lambda>x. projr (f x)) xs"
proof (induction xs arbitrary: ys)
  case Nil
  show ?case by auto
next
  case (Cons x xs)
  show ?case
  proof (cases "f x")
    case (Inl e)
    then show ?thesis by simp
  next
    case fx: (Inr y)
    show ?thesis
    proof (cases "mapE f xs")
      case (Inl e)
      with Cons.IH have "\<not> (\<forall>x\<in>set xs. \<exists>y. f x = Inr y)" by auto
      with fx Inl show ?thesis by auto
    next
      case (Inr zs)
      with Cons.IH[of zs] have "(\<forall>x\<in>set xs. \<exists>y. f x = Inr y)" "zs = map (\<lambda>x. projr (f x)) xs"
        by auto
      with fx Inr show ?thesis by auto
    qed
  qed
qed

lemma mapE_Inl_same:
  "x \<in> set xs \<Longrightarrow> f x = Inl e \<Longrightarrow> (\<And>y e'. y \<in> set xs \<Longrightarrow> f y = Inl e' \<Longrightarrow> e' = e)
     \<Longrightarrow> mapE f xs = Inl e"
proof (induction xs)
  case Nil
  then show ?case by simp
next
  case (Cons a xs)
  show ?case
  proof (cases "f a")
    case (Inl e')
    with Cons.prems(3)[of a e'] show ?thesis by simp
  next
    case (Inr y)
    with Cons.prems have "x \<in> set xs" by auto
    from Cons.IH[OF this Cons.prems(2)] Cons.prems(3) have "mapE f xs = Inl e" by auto
    with Inr show ?thesis by simp
  qed
qed

lemma deductMaterial_cases:
  "deductMaterial m it sz =
     (if m_quantity m * i_quantity it \<le> s_quantity sz
      then Inr (sz\<lparr>s_quantity := s_quantity sz - m_quantity m * i_quantity it\<rparr>)
      else Inl (InsufficientMaterialStock (m_name m)))"
  by (simp add: deductMaterial_def Let_def not_less)

lemma mapE_deductMaterial:
  "mapE (deductMaterial m it) szs = Inr ys \<longleftrightarrow>
     list_all (\<lambda>sz. m_quantity m * i_quantity it \<le> s_quantity sz) szs
     \<and> ys = decremented (m_quantity m * i_quantity it) szs"
proof -
  have a: "(\<forall>x\<in>set szs. \<exists>y. deductMaterial m it x = Inr y)
        \<longleftrightarrow> list_all (\<lambda>sz. m_quantity m * i_quantity it \<le> s_quantity sz) szs"
    by (auto simp: deductMaterial_cases list_all_iff)
  have b: "list_all (\<lambda>sz. m_quantity m * i_quantity it \<le> s_quantity sz) szs \<Longrightarrow>
        map (\<lambda>x. projr (deductMaterial m it x)) szs = decremented (m_quantity m * i_quantity it) szs"
    by (simp add: deductMaterial_cases list_all_iff decremented_def)
  show ?thesis unfolding mapE_Inr_iff a using b by auto
qed

lemma mapE_deductSize:
  "mapE (deductSize it) szs = Inr ys \<longleftrightarrow>
     list_all (\<lambda>sz. s_name sz = i_name it \<longrightarrow> i_quantity it \<le> s_quantity sz) szs
     \<and> ys = map (\<lambda>sz. if s_name sz = i_name it
                        then sz\<lparr>s_quantity := s_quantity sz - i_quantity it\<rparr> else sz) szs"
proof -
  have a: "(\<forall>x\<in>set szs. \<exists>y. deductSize it x = Inr y)
        \<longleftrightarrow> list_all (\<lambda>sz. s_name sz = i_name it \<longrightarrow> i_quantity it \<le> s_quantity sz) szs"
    by (auto simp: deductSize_def list_all_iff not_less)
  have b: "list_all (\<lambda>sz. s_name sz = i_name it \<longrightarrow> i_quantity it \<le> s_quantity sz) szs \<Longrightarrow>
        map (\<lambda>x. projr (deductSize it x)) szs =
        map (\<lambda>sz. if s_name sz = i_name it
                        then sz\<lparr>s_quantity := s_quantity sz - i_quantity it\<rparr> else sz) szs"
    by (auto simp: deductSize_def list_all_iff)
  show ?thesis unfolding mapE_Inr_iff a using b by auto
qed


lemma processMaterials_Inr_iff:
  "processMaterials db oid it st ms = Inr st' \<longleftrightarrow>
     list_all (\<lambda>m. materialAvailable db (it, m)) ms
     \<and> st' = st\<lparr>materialUpdates := materialUpdates st @ map (\<lambda>m. stagedMaterialUpdate db (it, m)) ms,
               stagedLogs := stagedLogs st @ map (\<lambda>m. stagedMaterialLog db oid (it, m)) ms\<rparr>"
proof (induction ms arbitrary: st)
  case Nil
  then show ?case by auto
next
  case (Cons m ms)
  show ?case
  proof (cases "inventory db (uid m)")
    case None
    then show ?thesis by (simp add: materialAvailable_def)
  next
    case (Some mp)
    show ?thesis
    proof (cases "mapE (deductMaterial m it) (sizes mp)")
      case (Inl e)
      then have "\<not> list_all (\<lambda>sz. m_quantity m * i_quantity it \<le> s_quantity sz) (sizes mp)"
        using mapE_deductMaterial[of m it "sizes mp"] by auto
      with Some Inl show ?thesis by (simp add: materialAvailable_def)
    next
      case (Inr ys)
      then have ys: "list_all (\<lambda>sz. m_quantity m * i_quantity it \<le> s_quantity sz) (sizes mp)"
        "ys = decremented (m_quantity m * i_quantity it) (sizes mp)"
        using mapE_deductMaterial[of m it "sizes mp" ys] by auto
      show ?thesis
        using Some Inr ys
        by (simp add: Cons.IH materialAvailable_def stagedMaterialUpdate_def stagedMaterialLog_def Let_def)
    qed
  qed
qed

lemma processItem_Inr_iff:
  "processItem db oid st it = Inr st' \<longleftrightarrow>
     itemAvailable db it \<and> list_all (\<lambda>m. materialAvailable db (it, m)) (i_materials it)
     \<and> st' = st\<lparr>productUpdates := productUpdates st @ [stagedProductUpdate db it],
               materialUpdates := materialUpdates st @ map (\<lambda>m. stagedMaterialUpdate db (it, m)) (i_materials it),
               stagedLogs := stagedLogs st @ map (\<lambda>m. stagedMaterialLog db oid (it, m)) (i_materials it)\<rparr>"
proof (cases "inventory db (i_productId it)")
  case None
  then show ?thesis by (simp add: processItem_def itemAvailable_def)
next
  case (Some p)
  show ?thesis
  proof (cases "mapE (deductSize it) (sizes p)")
    case (Inl e)
    then have "\<not> list_all (\<lambda>sz. s_name sz = i_name it \<longrightarrow> i_quantity it \<le> s_quantity sz) (sizes p)"
      using mapE_deductSize[of it "sizes p"] by auto
    with Some Inl show ?thesis by (simp add: processItem_def itemAvailable_def)
  next
    case (Inr ys)
    then have ys: "list_all (\<lambda>sz. s_name sz = i_name it \<longrightarrow> i_quantity it \<le> s_quantity sz) (sizes p)"
      "ys = map (\<lambda>sz. if s_name sz = i_name it
                        then sz\<lparr>s_quantity := s_quantity sz - i_quantity it\<rparr> else sz) (sizes p)"
      using mapE_deductSize[of it "sizes p" ys] by auto
    show ?thesis
    proof (cases "list_ex (\<lambda>sz. s_name sz = i_name it) (sizes p)")
      case False
      with Some Inr show ?thesis by (simp add: processItem_def itemAvailable_def)
    next
      case True
      with Some Inr ys show ?thesis
        by (simp add: processItem_def itemAvailable_def processMaterials_Inr_iff
              stagedProductUpdate_def Let_def)
    qed
  qed
qed

lemma materialRefs_Cons:
  "materialRefs (it # items) = map (\<lambda>m. (it, m)) (i_materials it) @ materialRefs items"
  by (simp add: materialRefs_def)

lemma processItems_Inr_iff:
  "processItems db oid st items = Inr st' \<longleftrightarrow>
     list_all (itemAvailable db) items \<and> list_all (materialAvailable db) (materialRefs items)
     \<and> st' = st\<lparr>productUpdates := productUpdates st @ map (stagedProductUpdate db) items,
               materialUpdates := materialUpdates st @ map (stagedMaterialUpdate db) (materialRefs items),
               stagedLogs := stagedLogs st @ map (stagedMaterialLog db oid) (materialRefs items)\<rparr>"
proof (induction items arbitrary: st)
  case Nil
  show ?case by (auto simp: materialRefs_def)
next
  case (Cons it items)
  show ?case
  proof (cases "processItem db oid st it")
    case (Inl e)
    then have "\<not> (itemAvailable db it \<and> list_all (\<lambda>m. materialAvailable db (it, m)) (i_materials it))"
      using processItem_Inr_iff[of db oid st it] by auto
    with Inl show ?thesis by (auto simp: materialRefs_Cons list_all_iff)
  next
    case (Inr st1)
    then have st1: "itemAvailable db it" "list_all (\<lambda>m. materialAvailable db (it, m)) (i_materials it)"
      "st1 = st\<lparr>productUpdates := productUpdates st @ [stagedProductUpdate db it],
               materialUpdates := materialUpdates st @ map (\<lambda>m. stagedMaterialUpdate db (it, m)) (i_materials it),
               stagedLogs := stagedLogs st @ map (\<lambda>m. stagedMaterialLog db oid (it, m)) (i_materials it)\<rparr>"
      using processItem_Inr_iff[of db oid st it st1] by auto
    have la: "list_all (materialAvailable db) (map (Pair it) (i_materials it))"
      using st1(2) by (simp add: list_all_iff)
    show ?thesis
      using Inr st1(1) la
      by (simp add: Cons.IH materialRefs_Cons st1(3) comp_def)
  qed
qed

lemma processItems_append:
  "processItems db oid st (pre @ post) =
     (case processItems db oid st pre of Inl e \<Rightarrow> Inl e | Inr st1 \<Rightarrow> processItems db oid st1 post)"
  by (induction pre arbitrary: st) (auto split: sum.splits)

lemma applyUpdate_lookup:
  "applyUpdate docs u k =
     (if k = u_ref u then
        (case docs k of None \<Rightarrow> None
         | Some p \<Rightarrow> Some (p\<lparr>sizes := u_sizes u, totalQuantity := Some (u_totalQuantity u)\<rparr>))
      else docs k)"
  by (simp add: applyUpdate_def split: option.splits)

lemma applyUpdates_lookup:
  "foldl applyUpdate docs ups k =
     (case find (\<lambda>u. u_ref u = k) (rev ups) of
        None \<Rightarrow> docs k
      | Some u \<Rightarrow>
          (case docs k of None \<Rightarrow> None
           | Some p \<Rightarrow> Some (p\<lparr>sizes := u_sizes u, totalQuantity := Some (u_totalQuantity u)\<rparr>)))"
proof (induction ups arbitrary: k rule: rev_induct)
  case Nil
  show ?case by simp
next
  case (snoc u ups)
  have step: "foldl applyUpdate docs (ups @ [u]) k = applyUpdate (foldl applyUpdate docs ups) u k"
    by simp
  show ?case
  proof (cases "k = u_ref u")
    case True
    have "foldl applyUpdate docs ups k = None \<longleftrightarrow> docs k = None"
      unfolding snoc.IH[of k] by (simp split: option.splits)
    moreover have "\<And>q. foldl applyUpdate docs ups k = Some q \<Longrightarrow>
        \<exists>p. docs k = Some p \<and> q\<lparr>sizes := u_sizes u, totalQuantity := Some (u_totalQuantity u)\<rparr>
             = p\<lparr>sizes := u_sizes u, totalQuantity := Some (u_totalQuantity u)\<rparr>"
      unfolding snoc.IH[of k] by (auto split: option.splits)
    ultimately show ?thesis
      unfolding step applyUpdate_lookup[of "foldl applyUpdate docs ups" u k] using True
      by (cases "foldl applyUpdate docs ups k") (auto split: option.splits)
  next
    case False
    then show ?thesis
      unfolding step applyUpdate_lookup[of "foldl applyUpdate docs ups" u k]
      by (simp add: snoc.IH[of k])
  qed
qed

subsection \<open>The handler of POST /orders\<close>

lemma foldl_add_sum_list:
  fixes a :: "'a::comm_monoid_add"
  shows "foldl (\<lambda>acc x. acc + f x) a xs = a + sum_list (map f xs)"
  by (induction xs arbitrary: a) (simp_all add: add.assoc)

lemma placeOrder_unfold:
  "placeOrder db oid body =
     (if \<not> validOrderBody body then (db, Inl MissingOrderData)
      else case orderTransaction oid (orderDataOf body) db of
             Inl e \<Rightarrow> (db, Inl e)
           | Inr db' \<Rightarrow> (db', Inr oid))"
  by (simp add: placeOrder_def runTransaction_def validOrderBody_def orderDataOf_def Let_def
        split: option.splits sum.splits)

lemma orderTransaction_unfold:
  "orderTransaction oid od db =
     (if truthy (customerId od) \<and> customers db (the (customerId od)) = None
      then Inl (CustomerNotFound (the (customerId od)))
      else case processItems db oid emptyStaged (o_items od) of
        Inl e \<Rightarrow> Inl e
      | Inr st \<Rightarrow>
          if customerId od = None then Inl (UndefinedValue ''customerId'')
          else
          Inr (db\<lparr> orders := (orders db)(oid \<mapsto> od),
                  inventory := foldl applyUpdate (foldl applyUpdate (inventory db) (productUpdates st))
                                 (materialUpdates st),
                  stockLogs := stockLogs db @ stagedLogs st,
                  customers :=
                    (if truthy (customerId od) then
                       (case customers db (the (customerId od)) of
                          None \<Rightarrow> customers db
                        | Some c \<Rightarrow> (customers db)(the (customerId od) \<mapsto> c\<lparr>ordersCount := ordersCount c + 1\<rparr>))
                     else customers db) \<rparr>))"
  by (simp add: orderTransaction_def emptyStaged_def)

lemma placeOrder_success:
  assumes "placeOrder db oid body = (db', Inr x)"
  shows "validOrderBody body \<and> customerKnown db body \<and> b_customerId body \<noteq> None \<and> x = oid
       \<and> list_all (itemAvailable db) (the (b_items body))
       \<and> list_all (materialAvailable db) (materialRefs (the (b_items body)))
       \<and> orders db' = (orders db)(oid \<mapsto> orderDataOf body)
       \<and> inventory db' =
           foldl applyUpdate
             (foldl applyUpdate (inventory db) (map (stagedProductUpdate db) (the (b_items body))))
             (map (stagedMaterialUpdate db) (materialRefs (the (b_items body))))
       \<and> stockLogs db' = stockLogs db @ map (stagedMaterialLog db oid) (materialRefs (the (b_items body)))
       \<and> customers db' =
           (if truthy (b_customerId body) then
              (customers db)(the (b_customerId body) \<mapsto>
                 (the (customers db (the (b_customerId body))))
                   \<lparr>ordersCount := ordersCount (the (customers db (the (b_customerId body)))) + 1\<rparr>)
            else customers db)
       \<and> categories db' = categories db"
proof -
  from assms have v: "validOrderBody body"
    by (simp add: placeOrder_unfold split: if_splits)
  with assms obtain dbx where tx: "orderTransaction oid (orderDataOf body) db = Inr dbx" and x: "x = oid" "db' = dbx"
    by (auto simp: placeOrder_unfold split: sum.splits)
  from tx have ck: "customerKnown db body"
    by (auto simp: orderTransaction_unfold customerKnown_def orderDataOf_def split: if_splits)
  from tx ck obtain st where st: "processItems db oid emptyStaged (the (b_items body)) = Inr st"
    by (auto simp: orderTransaction_unfold customerKnown_def orderDataOf_def split: if_splits sum.splits)
  from tx ck st have cid: "b_customerId body \<noteq> None"
    by (auto simp: orderTransaction_unfold customerKnown_def orderDataOf_def split: if_splits)
  note chr = st[unfolded processItems_Inr_iff]
  have st': "productUpdates st = map (stagedProductUpdate db) (the (b_items body))"
    "materialUpdates st = map (stagedMaterialUpdate db) (materialRefs (the (b_items body)))"
    "stagedLogs st = map (stagedMaterialLog db oid) (materialRefs (the (b_items body)))"
    using chr by (simp_all add: emptyStaged_def)
  have dbx: "dbx = db\<lparr> orders := (orders db)(oid \<mapsto> orderDataOf body),
                  inventory := foldl applyUpdate (foldl applyUpdate (inventory db) (productUpdates st))
                                 (materialUpdates st),
                  stockLogs := stockLogs db @ stagedLogs st,
                  customers :=
                    (if truthy (b_customerId body) then
                       (case customers db (the (b_customerId body)) of
                          None \<Rightarrow> customers db
                        | Some c \<Rightarrow> (customers db)(the (b_customerId body) \<mapsto> c\<lparr>ordersCount := ordersCount c + 1\<rparr>))
                     else customers db) \<rparr>"
    using tx ck st cid
    by (auto simp: orderTransaction_unfold customerKnown_def orderDataOf_def split: if_splits)
  show ?thesis
    using v ck x chr st' ck cid
    by (auto simp: dbx customerKnown_def)
qed

lemma placeOrder_run:
  assumes "validOrderBody body" "customerKnown db body"
  shows "placeOrder db oid body =
     (case processItems db oid emptyStaged (the (b_items body)) of
        Inl e \<Rightarrow> (db, Inl e)
      | Inr st \<Rightarrow>
          if b_customerId body = None then (db, Inl (UndefinedValue ''customerId''))
          else (fst (placeOrder db oid body), Inr oid))"
  using assms
  by (auto simp: placeOrder_unfold orderTransaction_unfold customerKnown_def orderDataOf_def
       split: sum.splits)

subsection \<open>Production cost, and an item that cannot be served\<close>

lemma itemCost_sum:
  "itemCost item =
     (\<Sum>m\<leftarrow>i_materials item. cost m * (if 0 < m_quantity m then m_quantity m else 1)) * i_quantity item"
  by (simp add: itemCost_def foldl_add_sum_list sum_list_mult_const)

lemma orderProductionCost_sum:
  "orderProductionCost items =
     (\<Sum>item\<leftarrow>items. (\<Sum>m\<leftarrow>i_materials item. cost m * (if 0 < m_quantity m then m_quantity m else 1))
                      * i_quantity item)"
  by (simp add: orderProductionCost_def foldl_add_sum_list itemCost_sum)

lemma guarded_sum_max:
  assumes "\<forall>m\<in>set ms. m_quantity m \<le> 0 \<or> 1 \<le> m_quantity m"
  shows "(\<Sum>m\<leftarrow>ms. cost m * (if 0 < m_quantity m then m_quantity m else 1))
       = (\<Sum>m\<leftarrow>ms. cost m * max (m_quantity m) 1)"
proof -
  have "map (\<lambda>m. cost m * (if 0 < m_quantity m then m_quantity m else 1)) ms
      = map (\<lambda>m. cost m * max (m_quantity m) 1) ms"
    using assms by (intro map_cong refl) (auto simp: max_def)
  then show ?thesis by (rule arg_cong)
qed




subsection \<open>The writes of an accepted order\<close>

lemma materialRefs_append:
  "materialRefs (xs @ ys) = materialRefs xs @ materialRefs ys"
  by (simp add: materialRefs_def)

lemma sumQuantity_sum: "sumQuantity szs = (\<Sum>sz\<leftarrow>szs. s_quantity sz)"
  by (simp add: sumQuantity_def foldl_add_sum_list)

lemma sumQuantity_decremented:
  "sumQuantity (decremented d szs) = (\<Sum>sz\<leftarrow>szs. s_quantity sz - d)"
  by (simp add: sumQuantity_sum decremented_def comp_def)

lemma find_append_cases:
  "find P (xs @ ys) = (case find P xs of None \<Rightarrow> find P ys | Some x \<Rightarrow> Some x)"
  by (induction xs) auto

lemma find_rev_last:
  assumes "P x" "\<forall>y\<in>set post. \<not> P y"
  shows "find P (rev (pre @ x # post)) = Some x"
proof -
  have "find P (rev post) = None" using assms(2) by (simp add: find_None_iff)
  then show ?thesis using assms(1) by (simp add: find_append_cases)
qed

lemma foldl_applyUpdate_overwritten:
  assumes "docs k = Some p"
  shows "\<exists>p'. foldl applyUpdate docs ups k = Some p' \<and>
           p'\<lparr>sizes := a, totalQuantity := b\<rparr> = p\<lparr>sizes := a, totalQuantity := b\<rparr>"
  using assms by (auto simp: applyUpdates_lookup split: option.splits)

lemma materialRefs_split:
  assumes "items = ipre @ it # ipost" "i_materials it = mpre @ m # mpost"
  shows "materialRefs items =
     (materialRefs ipre @ map (Pair it) mpre) @ (it, m) # (map (Pair it) mpost @ materialRefs ipost)"
  using assms by (simp add: materialRefs_append materialRefs_Cons)

lemma last_material_write:
  assumes ok: "placeOrder db oid body = (db', Inr x)"
    and items: "b_items body = Some items"
    and pos: "items = ipre @ it # ipost" "i_materials it = mpre @ m # mpost"
    and later: "\<forall>m'\<in>set mpost. uid m' \<noteq> uid m"
       "\<forall>it'\<in>set ipost. \<forall>m'\<in>set (i_materials it'). uid m' \<noteq> uid m"
  shows "inventory db' (uid m) =
           Some ((the (inventory db (uid m)))
             \<lparr>sizes := decremented (m_quantity m * i_quantity it) (sizes (the (inventory db (uid m)))),
               totalQuantity :=
                 Some (\<Sum>sz\<leftarrow>sizes (the (inventory db (uid m))).
                          s_quantity sz - m_quantity m * i_quantity it)\<rparr>)"
proof -
  note s = placeOrder_success[OF ok]
  let ?refs = "materialRefs items"
  have split: "?refs = (materialRefs ipre @ map (Pair it) mpre) @ (it, m) # (map (Pair it) mpost @ materialRefs ipost)"
    by (rule materialRefs_split[OF pos])
  have avail: "materialAvailable db (it, m)"
    using s items split by (simp add: list_all_iff)
  then obtain mp where mp: "inventory db (uid m) = Some mp"
    by (auto simp: materialAvailable_def split: option.splits)
  have noLater: "\<forall>r\<in>set (map (Pair it) mpost @ materialRefs ipost). uid (snd r) \<noteq> uid m"
    using later by (auto simp: materialRefs_def)
  have ref: "u_ref (stagedMaterialUpdate db r) = uid (snd r)" for r
    by (simp add: stagedMaterialUpdate_def Let_def split: prod.splits)
  have eq: "map (stagedMaterialUpdate db) ?refs =
          map (stagedMaterialUpdate db) (materialRefs ipre @ map (Pair it) mpre)
          @ stagedMaterialUpdate db (it, m)
          # map (stagedMaterialUpdate db) (map (Pair it) mpost @ materialRefs ipost)"
    unfolding split by simp
  have nl: "\<forall>u\<in>set (map (stagedMaterialUpdate db) (map (Pair it) mpost @ materialRefs ipost)).
                   \<not> u_ref u = uid m"
  proof
    fix u assume "u \<in> set (map (stagedMaterialUpdate db) (map (Pair it) mpost @ materialRefs ipost))"
    then obtain r where r: "r \<in> set (map (Pair it) mpost @ materialRefs ipost)"
      "u = stagedMaterialUpdate db r" by auto
    with noLater have "uid (snd r) \<noteq> uid m" by blast
    with r(2) show "\<not> u_ref u = uid m" by (simp add: ref)
  qed
  have here: "u_ref (stagedMaterialUpdate db (it, m)) = uid m" by (simp add: ref)
  have f: "find (\<lambda>u. u_ref u = uid m) (rev (map (stagedMaterialUpdate db) ?refs))
                      = Some (stagedMaterialUpdate db (it, m))"
    unfolding eq by (rule find_rev_last[OF here nl])
  obtain p' where p': "foldl applyUpdate (inventory db) (map (stagedProductUpdate db) items) (uid m) = Some p'"
    "p'\<lparr>sizes := u_sizes (stagedMaterialUpdate db (it, m)),
        totalQuantity := Some (u_totalQuantity (stagedMaterialUpdate db (it, m)))\<rparr>
     = mp\<lparr>sizes := u_sizes (stagedMaterialUpdate db (it, m)),
        totalQuantity := Some (u_totalQuantity (stagedMaterialUpdate db (it, m)))\<rparr>"
    using foldl_applyUpdate_overwritten[of "inventory db" "uid m" mp, OF mp] by blast
  have "inventory db' (uid m) =
     foldl applyUpdate (foldl applyUpdate (inventory db) (map (stagedProductUpdate db) items))
        (map (stagedMaterialUpdate db) ?refs) (uid m)"
    using s items by simp
  also have "\<dots> = Some (mp\<lparr>sizes := u_sizes (stagedMaterialUpdate db (it, m)),
        totalQuantity := Some (u_totalQuantity (stagedMaterialUpdate db (it, m)))\<rparr>)"
    unfolding applyUpdates_lookup[of _ "map (stagedMaterialUpdate db) ?refs"] f
    using p' by simp
  finally show ?thesis
    using mp by (simp add: stagedMaterialUpdate_def Let_def sumQuantity_decremented)
qed

lemma material_available:
  assumes ok: "placeOrder db oid body = (db', Inr x)"
    and items: "b_items body = Some items"
    and "it \<in> set items" "m \<in> set (i_materials it)"
  shows "\<exists>mp. inventory db (uid m) = Some mp \<and>
           (\<forall>sz\<in>set (sizes mp). m_quantity m * i_quantity it \<le> s_quantity sz)"
proof -
  have "(it, m) \<in> set (materialRefs items)"
    using assms(3,4) by (auto simp: materialRefs_def)
  moreover have "list_all (materialAvailable db) (materialRefs items)"
    using placeOrder_success[OF ok] items by simp
  ultimately have "materialAvailable db (it, m)" by (simp add: list_all_iff)
  then show ?thesis
    by (auto simp: materialAvailable_def list_all_iff split: option.splits)
qed

text \<open>
  A material whose deduction would make a size negative stops the loops with the
  insufficient-stock error of that material.
\<close>

lemma mapE_deductMaterial_Inl:
  assumes "sz \<in> set szs" "s_quantity sz - m_quantity m * i_quantity it < 0"
  shows "mapE (deductMaterial m it) szs = Inl (InsufficientMaterialStock (m_name m))"
  using assms(1)
proof (rule mapE_Inl_same)
  show "deductMaterial m it sz = Inl (InsufficientMaterialStock (m_name m))"
    using assms(2) by (simp add: deductMaterial_def Let_def)
next
  fix y e' assume "deductMaterial m it y = Inl e'"
  then show "e' = InsufficientMaterialStock (m_name m)"
    by (auto simp: deductMaterial_def Let_def split: if_splits)
qed

lemma processMaterials_append:
  "processMaterials db oid it st (pre @ post) =
     (case processMaterials db oid it st pre of
        Inl e \<Rightarrow> Inl e
      | Inr st1 \<Rightarrow> processMaterials db oid it st1 post)"
  by (induction pre arbitrary: st) (auto split: option.splits sum.splits)

lemma processMaterials_insufficient:
  assumes "list_all (\<lambda>m'. materialAvailable db (it, m')) mpre"
    and "inventory db (uid m) = Some mp" "sz \<in> set (sizes mp)"
    and "s_quantity sz - m_quantity m * i_quantity it < 0"
  shows "processMaterials db oid it st (mpre @ m # mpost) = Inl (InsufficientMaterialStock (m_name m))"
proof -
  obtain st1 where "processMaterials db oid it st mpre = Inr st1"
    using assms(1) by (simp add: processMaterials_Inr_iff)
  then show ?thesis
    unfolding processMaterials_append
    using assms(2) mapE_deductMaterial_Inl[OF assms(3,4)] by simp
qed

lemma itemAvailable_materials [simp]:
  "itemAvailable db (it\<lparr>i_materials := ms\<rparr>) = itemAvailable db it"
  by (cases "inventory db (i_productId it)") (simp_all add: itemAvailable_def)

lemma materialAvailable_materials [simp]:
  "materialAvailable db (it\<lparr>i_materials := ms\<rparr>, m) = materialAvailable db (it, m)"
  by (cases "inventory db (uid m)") (simp_all add: materialAvailable_def)

lemma processItem_insufficient_material:
  assumes mats: "i_materials it = mpre @ m # mpost"
    and pre: "processItem db oid st (it\<lparr>i_materials := mpre\<rparr>) = Inr st2"
    and mp: "inventory db (uid m) = Some mp" "sz \<in> set (sizes mp)"
    and neg: "s_quantity sz - m_quantity m * i_quantity it < 0"
  shows "processItem db oid st it = Inl (InsufficientMaterialStock (m_name m))"
proof -
  from pre have av: "itemAvailable db it" "list_all (\<lambda>m'. materialAvailable db (it, m')) mpre"
    by (simp_all add: processItem_Inr_iff)
  from av(1) obtain p where p: "inventory db (i_productId it) = Some p"
    "list_all (\<lambda>sz. s_name sz = i_name it \<longrightarrow> i_quantity it \<le> s_quantity sz) (sizes p)"
    "list_ex (\<lambda>sz. s_name sz = i_name it) (sizes p)"
    by (auto simp: itemAvailable_def split: option.splits)
  from p(2) obtain ys where ys: "mapE (deductSize it) (sizes p) = Inr ys"
    by (simp add: mapE_deductSize)
  show ?thesis
    using p(1,3) ys processMaterials_insufficient[OF av(2) mp neg]
    by (simp add: processItem_def mats)
qed

lemma placeOrder_fails_material:
  assumes "b_items body = Some items" "\<not> list_all (materialAvailable db) (materialRefs items)"
  shows "\<exists>e. placeOrder db oid body = (db, Inl e)"
proof (cases "processItems db oid emptyStaged items")
  case (Inl e)
  with assms(1) show ?thesis
    by (auto simp: placeOrder_unfold orderTransaction_unfold orderDataOf_def)
next
  case (Inr st)
  with assms(2) show ?thesis by (simp add: processItems_Inr_iff)
qed

subsection \<open>Log entries and the cost of one material\<close>

lemma stagedMaterialLog_record:
  "stagedMaterialLog db oid (it, m) =
     \<lparr> totalStockBefore = (case sizes (the (inventory db (uid m))) of [] \<Rightarrow> 0 | s # _ \<Rightarrow> s_quantity s),
       addedStock = - (m_quantity m * i_quantity it),
       totalStockAfter = (case sizes (the (inventory db (uid m))) of
                            [] \<Rightarrow> 0 | s # _ \<Rightarrow> s_quantity s - m_quantity m * i_quantity it),
       h_notes = ''Deducci'' @ [CHR 0xF3] @ ''n por orden '' @ oid,
       sizeName = (case sizes (the (inventory db (uid m))) of
                     [] \<Rightarrow> ''Default''
                   | s # _ \<Rightarrow> if s_name s = [] then ''Default'' else s_name s),
       productId = uid m,
       productName = m_name m \<rparr>"
  by (simp add: stagedMaterialLog_def materialLogEntry_def decremented_def split: list.splits)

lemma length_materialRefs:
  "length (materialRefs items) = (\<Sum>it\<leftarrow>items. length (i_materials it))"
  by (simp add: materialRefs_def length_concat comp_def)

text \<open>
  The log entries of an accepted order, one for each pair of an item and one of its
  materials, in the order of the loops. Each is computed from the quantities read when
  the transaction began.
\<close>

lemma order_log_entries:
  assumes ok: "placeOrder db oid body = (db', Inr x)"
    and items: "b_items body = Some items"
  shows "(\<forall>it\<in>set items. \<forall>m\<in>set (i_materials it). inventory db (uid m) \<noteq> None) \<and>
     length (stockLogs db') = length (stockLogs db) + (\<Sum>it\<leftarrow>items. length (i_materials it)) \<and>
     stockLogs db' = stockLogs db @
       concat (map (\<lambda>it. map (\<lambda>m.
          \<lparr> totalStockBefore =
              (case sizes (the (inventory db (uid m))) of [] \<Rightarrow> 0 | s # _ \<Rightarrow> s_quantity s),
            addedStock = - (m_quantity m * i_quantity it),
            totalStockAfter =
              (case sizes (the (inventory db (uid m))) of
                 [] \<Rightarrow> 0 | s # _ \<Rightarrow> s_quantity s - m_quantity m * i_quantity it),
            h_notes = ''Deducci'' @ [CHR 0xF3] @ ''n por orden '' @ oid,
            sizeName = (case sizes (the (inventory db (uid m))) of
                          [] \<Rightarrow> ''Default''
                        | s # _ \<Rightarrow> if s_name s = [] then ''Default'' else s_name s),
            productId = uid m,
            productName = m_name m \<rparr>) (i_materials it)) items)"
proof -
  have a: "\<forall>it\<in>set items. \<forall>m\<in>set (i_materials it). inventory db (uid m) \<noteq> None"
    using material_available[OF ok items] by fastforce
  have logs: "stockLogs db' = stockLogs db @ map (stagedMaterialLog db oid) (materialRefs items)"
    using placeOrder_success[OF ok] items by simp
  have c: "map (stagedMaterialLog db oid) (materialRefs items)
         = concat (map (\<lambda>it. map (\<lambda>m. stagedMaterialLog db oid (it, m)) (i_materials it)) items)"
    by (simp add: materialRefs_def map_concat comp_def)
  have b: "length (stockLogs db') = length (stockLogs db) + (\<Sum>it\<leftarrow>items. length (i_materials it))"
    unfolding logs by (simp add: length_materialRefs)
  show ?thesis
    using a b unfolding logs c stagedMaterialLog_record by simp
qed

lemma itemCost_split:
  assumes "i_materials it = mpre @ m # mpost"
  shows "itemCost it = itemCost (it\<lparr>i_materials := mpre @ mpost\<rparr>)
           + cost m * (if 0 < m_quantity m then m_quantity m else 1) * i_quantity it"
  using assms by (simp add: itemCost_sum algebra_simps)

lemma orderProductionCost_split:
  assumes "items = ipre @ it # ipost" "i_materials it = mpre @ m # mpost"
  shows "orderProductionCost items =
           orderProductionCost (ipre @ it\<lparr>i_materials := mpre @ mpost\<rparr> # ipost)
           + cost m * (if 0 < m_quantity m then m_quantity m else 1) * i_quantity it"
proof -
  have "orderProductionCost items = (\<Sum>i\<leftarrow>ipre. itemCost i) + itemCost it + (\<Sum>i\<leftarrow>ipost. itemCost i)"
    unfolding assms(1) by (simp add: orderProductionCost_def foldl_add_sum_list)
  moreover have "orderProductionCost (ipre @ it\<lparr>i_materials := mpre @ mpost\<rparr> # ipost)
      = (\<Sum>i\<leftarrow>ipre. itemCost i) + itemCost (it\<lparr>i_materials := mpre @ mpost\<rparr>) + (\<Sum>i\<leftarrow>ipost. itemCost i)"
    by (simp add: orderProductionCost_def foldl_add_sum_list)
  ultimately show ?thesis
    using itemCost_split[OF assms(2)] by simp
qed

subsection \<open>Stock adjustment\<close>

lemma adjustSize_cases:
  "adjustSize n d sz =
     (if s_name sz = n then
        (if s_quantity sz + d < 0 then Inl (NegativeStock n)
         else Inr (sz\<lparr>s_quantity := s_quantity sz + d,
                      productionCost := Some (\<Sum>m\<leftarrow>s_materials sz. cost m * m_quantity m),
                      profit := Some (s_price sz - (\<Sum>m\<leftarrow>s_materials sz. cost m * m_quantity m))\<rparr>))
      else Inr sz)"
  by (simp add: adjustSize_def Let_def foldl_add_sum_list)

lemma mapE_adjustSize:
  "mapE (adjustSize n d) szs = Inr ys \<longleftrightarrow>
     list_all (\<lambda>sz. s_name sz = n \<longrightarrow> 0 \<le> s_quantity sz + d) szs
     \<and> ys = map (\<lambda>sz. if s_name sz = n
                        then sz\<lparr>s_quantity := s_quantity sz + d,
                               productionCost := Some (\<Sum>m\<leftarrow>s_materials sz. cost m * m_quantity m),
                               profit := Some (s_price sz - (\<Sum>m\<leftarrow>s_materials sz. cost m * m_quantity m))\<rparr>
                        else sz) szs"
proof -
  have a: "(\<forall>x\<in>set szs. \<exists>y. adjustSize n d x = Inr y)
        \<longleftrightarrow> list_all (\<lambda>sz. s_name sz = n \<longrightarrow> 0 \<le> s_quantity sz + d) szs"
    by (auto simp: adjustSize_cases list_all_iff not_less)
  have b: "list_all (\<lambda>sz. s_name sz = n \<longrightarrow> 0 \<le> s_quantity sz + d) szs \<Longrightarrow>
        map (\<lambda>x. projr (adjustSize n d x)) szs =
        map (\<lambda>sz. if s_name sz = n
                        then sz\<lparr>s_quantity := s_quantity sz + d,
                               productionCost := Some (\<Sum>m\<leftarrow>s_materials sz. cost m * m_quantity m),
                               profit := Some (s_price sz - (\<Sum>m\<leftarrow>s_materials sz. cost m * m_quantity m))\<rparr>
                        else sz) szs"
    by (auto simp: adjustSize_cases list_all_iff)
  show ?thesis unfolding mapE_Inr_iff a using b by auto
qed

subsection \<open>Category documents and their positions\<close>

lemma map_of_map_upd:
  "map_of (map (\<lambda>(k', c). if k' = k then (k', f c) else (k', c)) cats) x =
     (if x = k then map_option f (map_of cats k) else map_of cats x)"
  by (induction cats) auto

lemma map_of_setMerge:
  "map_of (setMerge cats k d) x =
     (if x = k then Some (case map_of cats k of None \<Rightarrow> d | Some old \<Rightarrow> mergeCategory old d)
      else map_of cats x)"
  by (cases "map_of cats k") (auto simp: setMerge_def map_of_map_upd map_add_def split: option.splits)

lemma keys_setMerge:
  "map fst (setMerge cats k d) = (if map_of cats k = None then map fst cats @ [k] else map fst cats)"
proof -
  have "map fst (map (\<lambda>(k', c). if k' = k then (k', f c) else (k', c)) cats) = map fst cats" for f
    by (induction cats) auto
  then show ?thesis by (auto simp: setMerge_def)
qed

lemma positionOf_setMerge:
  "positionOf (setMerge cats k (d\<lparr>position := Some p\<rparr>)) x =
     (if x = k then Some p else positionOf cats x)"
  by (simp add: positionOf_def map_of_setMerge mergeCategory_def split: option.splits)

lemma assignPositions_Cons_Inr:
  assumes "assignPositions db w cats (a # as) = Inr cats'"
  shows "\<not> w \<and> (\<exists>cur. map_of (categories db) (cp_id a) = Some cur \<and>
           assignPositions db True (setMerge cats (cp_id a) (cur\<lparr>position := Some (cp_position a)\<rparr>)) as
             = Inr cats')"
  using assms by (cases "map_of (categories db) (cp_id a)") (auto split: if_splits)

lemma assignPositions_positionOf:
  "assignPositions db w cats as = Inr cats' \<Longrightarrow>
     positionOf cats' k =
       (case find (\<lambda>a. cp_id a = k) (rev as) of
          None \<Rightarrow> positionOf cats k
        | Some a \<Rightarrow> Some (cp_position a))"
proof (induction as arbitrary: cats w)
  case Nil
  then show ?case by simp
next
  case (Cons a as)
  from assignPositions_Cons_Inr[OF Cons.prems] obtain cur where
    "assignPositions db True (setMerge cats (cp_id a) (cur\<lparr>position := Some (cp_position a)\<rparr>)) as = Inr cats'"
    by blast
  from Cons.IH[OF this] show ?case
    by (simp add: find_append_cases positionOf_setMerge split: option.splits)
qed

lemma assignPositions_keys:
  "assignPositions db w cats as = Inr cats' \<Longrightarrow> map fst cats = map fst (categories db)
     \<Longrightarrow> map fst cats' = map fst (categories db)"
proof (induction as arbitrary: cats w)
  case Nil
  then show ?case by simp
next
  case (Cons a as)
  from assignPositions_Cons_Inr[OF Cons.prems(1)] obtain cur where
    cur: "map_of (categories db) (cp_id a) = Some cur"
    and rest: "assignPositions db True (setMerge cats (cp_id a) (cur\<lparr>position := Some (cp_position a)\<rparr>)) as
                 = Inr cats'"
    by blast
  from cur have "cp_id a \<in> fst ` set (categories db)"
    by (metis domI dom_map_of_conv_image_fst)
  then have "cp_id a \<in> fst ` set cats"
    using Cons.prems(2) by (metis set_map)
  then have "map_of cats (cp_id a) \<noteq> None"
    by (metis domIff dom_map_of_conv_image_fst)
  then have k: "map fst (setMerge cats (cp_id a) (cur\<lparr>position := Some (cp_position a)\<rparr>)) = map fst (categories db)"
    using Cons.prems(2) by (simp add: keys_setMerge)
  from Cons.IH[OF rest k] show ?case .
qed

lemma assignPositions_second_read:
  "map_of (categories db) (cp_id a) \<noteq> None
     \<Longrightarrow> assignPositions db False cats (a # b # as) = Inl ReadAfterWrite"
  by auto

lemma fallbackPositions_Cons:
  "fallbackPositions as cats (c # ex) =
     (if omitted as c
      then (if \<not> truthy (c_id c) then Inl EmptyDocumentPath
            else fallbackPositions as
                   (setMerge cats (fallbackTarget c) (c\<lparr>position := Some (of_nat (length as))\<rparr>)) ex)
      else fallbackPositions as cats ex)"
  by (simp add: omitted_def fallbackTarget_def Let_def)

lemma fallbackPositions_positionOf:
  "fallbackPositions as cats ex = Inr cats' \<Longrightarrow>
   positionOf cats' k =
     (if \<exists>c\<in>set ex. omitted as c \<and> fallbackTarget c = k
      then Some (of_nat (length as)) else positionOf cats k)"
proof (induction ex arbitrary: cats)
  case Nil
  then show ?case by simp
next
  case (Cons c ex)
  show ?case
  proof (cases "omitted as c")
    case True
    with Cons.prems have
      "fallbackPositions as
         (setMerge cats (fallbackTarget c) (c\<lparr>position := Some (of_nat (length as))\<rparr>)) ex = Inr cats'"
      unfolding fallbackPositions_Cons by (simp split: if_splits)
    from Cons.IH[OF this] True show ?thesis
      by (auto simp: positionOf_setMerge)
  next
    case False
    with Cons.prems have "fallbackPositions as cats ex = Inr cats'"
      unfolding fallbackPositions_Cons by simp
    from Cons.IH[OF this] False show ?thesis
      by auto
  qed
qed

lemma fallbackPositions_keys:
  "\<forall>c\<in>set ex. fallbackTarget c \<in> fst ` set cats
     \<Longrightarrow> fallbackPositions as cats ex = Inr cats'
     \<Longrightarrow> map fst cats' = map fst cats"
proof (induction ex arbitrary: cats)
  case Nil
  then show ?case by simp
next
  case (Cons c ex)
  have "fallbackTarget c \<in> fst ` set cats" using Cons.prems(1) by simp
  then have "map_of cats (fallbackTarget c) \<noteq> None"
    by (metis domIff dom_map_of_conv_image_fst)
  then have k: "map fst (setMerge cats (fallbackTarget c) d) = map fst cats" for d
    by (simp add: keys_setMerge)
  have rest: "\<forall>c\<in>set ex. fallbackTarget c \<in> fst ` set cats1"
    if "map fst cats1 = map fst cats" for cats1 :: "(string \<times> Category) list"
    using Cons.prems(1) that by (metis list.set_intros(2) set_map)
  show ?case
  proof (cases "omitted as c")
    case True
    with Cons.prems(2) have
      "fallbackPositions as
         (setMerge cats (fallbackTarget c) (c\<lparr>position := Some (of_nat (length as))\<rparr>)) ex = Inr cats'"
      unfolding fallbackPositions_Cons by (simp split: if_splits)
    from Cons.IH[OF rest[OF k] this] k show ?thesis by simp
  next
    case False
    with Cons.prems(2) have "fallbackPositions as cats ex = Inr cats'"
      unfolding fallbackPositions_Cons by simp
    from Cons.IH[OF rest[OF refl] this] show ?thesis .
  qed
qed

lemma existingCategories_id:
  "c \<in> set (existingCategories db) \<Longrightarrow> \<exists>i. c_id c = Some i"
  by (auto simp: existingCategories_def split: option.splits)

lemma fallbackTarget_Some: "c_id c = Some i \<Longrightarrow> fallbackTarget c = i"
  by (simp add: fallbackTarget_def)

lemma omitted_iff: "c_id c = Some i \<Longrightarrow> omitted as c \<longleftrightarrow> i \<notin> cp_id ` set as"
  by (auto simp: omitted_def find_None_iff)

lemma reorder_success:
  assumes "reorderCategories db (Some as) = (db', Inr u)"
  shows "as \<noteq> [] \<and> (\<forall>a\<in>set as. cp_id a \<noteq> []) \<and>
         (\<exists>staged cats'. assignPositions db False (categories db) as = Inr staged \<and>
            fallbackPositions as staged (existingCategories db) = Inr cats' \<and>
            db' = db\<lparr>categories := cats'\<rparr>)"
  using assms
  by (auto simp: reorderCategories_def runTransaction_def Let_def list_ex_iff
        split: if_splits sum.splits)

subsection \<open>A successful reorder\<close>

lemma listed_position:
  assumes ok: "reorderCategories db (Some as) = (db', Inr u)"
    and split: "as = pre @ a # post" and last: "\<forall>b\<in>set post. cp_id b \<noteq> cp_id a"
  shows "positionOf (categories db') (cp_id a) = Some (cp_position a)"
proof -
  from reorder_success[OF ok] obtain staged cats' where
    st: "assignPositions db False (categories db) as = Inr staged"
    and fb: "fallbackPositions as staged (existingCategories db) = Inr cats'"
    and db': "db' = db\<lparr>categories := cats'\<rparr>"
    by blast
  have f: "find (\<lambda>b. cp_id b = cp_id a) (rev as) = Some a"
    unfolding split using last by (intro find_rev_last) auto
  have staged: "positionOf staged (cp_id a) = Some (cp_position a)"
    using assignPositions_positionOf[OF st, of "cp_id a"] f by simp
  have nofb: "\<not> (\<exists>c\<in>set (existingCategories db). omitted as c \<and> fallbackTarget c = cp_id a)"
  proof
    assume "\<exists>c\<in>set (existingCategories db). omitted as c \<and> fallbackTarget c = cp_id a"
    then obtain c where c: "c \<in> set (existingCategories db)" "omitted as c" "fallbackTarget c = cp_id a"
      by blast
    from existingCategories_id[OF c(1)] obtain i where i: "c_id c = Some i" by blast
    with c(3) have "i = cp_id a" by (simp add: fallbackTarget_Some)
    moreover have "cp_id a \<in> cp_id ` set as" using split by simp
    ultimately show False using c(2) i by (simp add: omitted_iff)
  qed
  have "positionOf cats' (cp_id a) = positionOf staged (cp_id a)"
    unfolding fallbackPositions_positionOf[OF fb] by (rule if_not_P[OF nofb])
  with staged show ?thesis by (simp add: db')
qed

lemma omitted_position:
  assumes ok: "reorderCategories db (Some as) = (db', Inr u)"
    and wf: "\<forall>(k, d)\<in>set (categories db). c_id d = None \<or> c_id d = Some k"
    and k: "k \<in> fst ` set (categories db)" "k \<notin> cp_id ` set as"
  shows "positionOf (categories db') k = Some (of_nat (length as))"
proof -
  from reorder_success[OF ok] obtain staged cats' where
    st: "assignPositions db False (categories db) as = Inr staged"
    and fb: "fallbackPositions as staged (existingCategories db) = Inr cats'"
    and db': "db' = db\<lparr>categories := cats'\<rparr>"
    by blast
  from k(1) obtain d where d: "(k, d) \<in> set (categories db)" by auto
  define c where "c = d\<lparr>c_id := (case c_id d of None \<Rightarrow> Some k | Some i \<Rightarrow> Some i)\<rparr>"
  have cin: "c \<in> set (existingCategories db)"
    using d by (force simp: existingCategories_def c_def)
  have cid: "c_id c = Some k"
    using wf d by (auto simp: c_def split: option.splits)
  have "omitted as c" "fallbackTarget c = k"
    using cid k(2) by (simp_all add: omitted_iff fallbackTarget_Some)
  with cin show ?thesis
    by (auto simp: db' fallbackPositions_positionOf[OF fb])
qed

lemma reorder_keys:
  assumes ok: "reorderCategories db (Some as) = (db', Inr u)"
    and wf: "\<forall>(k, d)\<in>set (categories db). c_id d = None \<or> c_id d = Some k"
  shows "map fst (categories db') = map fst (categories db)"
proof -
  from reorder_success[OF ok] obtain staged cats' where
    st: "assignPositions db False (categories db) as = Inr staged"
    and fb: "fallbackPositions as staged (existingCategories db) = Inr cats'"
    and db': "db' = db\<lparr>categories := cats'\<rparr>"
    by blast
  have ks: "map fst staged = map fst (categories db)"
    by (rule assignPositions_keys[OF st refl])
  have "\<forall>c\<in>set (existingCategories db). fallbackTarget c \<in> fst ` set staged"
  proof
    fix c assume "c \<in> set (existingCategories db)"
    then obtain k d where d: "(k, d) \<in> set (categories db)"
      "c = d\<lparr>c_id := (case c_id d of None \<Rightarrow> Some k | Some i \<Rightarrow> Some i)\<rparr>"
      by (auto simp: existingCategories_def)
    have "c_id c = Some k" using wf d by (auto split: option.splits)
    then have "fallbackTarget c = k" by (simp add: fallbackTarget_Some)
    moreover have "k \<in> fst ` set staged"
      using d(1) ks by (metis fst_conv image_eqI set_map)
    ultimately show "fallbackTarget c \<in> fst ` set staged" by simp
  qed
  from fallbackPositions_keys[OF this fb] ks show ?thesis by (simp add: db')
qed

lemma position_by_key:
  "distinct (map fst xs) \<Longrightarrow> (k, c) \<in> set xs \<Longrightarrow> positionOf xs k = position c"
  by (simp add: positionOf_def)

text \<open>
  A reorder whose first entry names no category fails with the not-found error of that
  entry.
\<close>

lemma reorder_first_missing:
  assumes "\<forall>b\<in>set (a # as). cp_id b \<noteq> []" "map_of (categories db) (cp_id a) = None"
  shows "reorderCategories db (Some (a # as)) = (db, Inl (CategoryNotFound (cp_id a)))"
proof -
  have "\<not> list_ex (\<lambda>cat. cp_id cat = []) (a # as)"
    using assms(1) by (simp add: list_ex_iff)
  then show ?thesis
    using assms(2)
    by (simp add: reorderCategories_def runTransaction_def Let_def)
qed

subsection \<open>The id field of category documents\<close>

text \<open>
  The handler keeps the following property of the category collection: the \<open>id\<close> field a
  document carries, if any, is its own document id. New categories are written without
  the field, so every collection the handlers build has the property.
\<close>

lemma setMerge_own_id:
  assumes "\<forall>(k, d)\<in>set cats. c_id d = None \<or> c_id d = Some k"
    and "c_id d = None \<or> c_id d = Some k"
  shows "\<forall>(k', d')\<in>set (setMerge cats k d). c_id d' = None \<or> c_id d' = Some k'"
proof (cases "map_of cats k")
  case None
  with assms show ?thesis by (auto simp: setMerge_def)
next
  case (Some old)
  show ?thesis
  proof (clarify)
    fix k' d' assume "(k', d') \<in> set (setMerge cats k d)" "c_id d' \<noteq> Some k'"
    then obtain c where c: "(k', c) \<in> set cats" "d' = (if k' = k then mergeCategory c d else c)"
      using Some by (auto simp: setMerge_def split: if_splits)
    from assms(1) c(1) have "c_id c = None \<or> c_id c = Some k'" by auto
    with c(2) assms(2) \<open>c_id d' \<noteq> Some k'\<close> show "c_id d' = None"
      by (auto simp: mergeCategory_def split: if_splits option.splits)
  qed
qed

lemma assignPositions_own_id:
  assumes "\<forall>(k, d)\<in>set (categories db). c_id d = None \<or> c_id d = Some k"
  shows "\<forall>(k, d)\<in>set cats. c_id d = None \<or> c_id d = Some k \<Longrightarrow>
         assignPositions db w cats as = Inr cats' \<Longrightarrow>
         \<forall>(k, d)\<in>set cats'. c_id d = None \<or> c_id d = Some k"
proof (induction as arbitrary: cats w)
  case Nil
  then show ?case by simp
next
  case (Cons a as)
  from assignPositions_Cons_Inr[OF Cons.prems(2)] obtain cur where
    cur: "map_of (categories db) (cp_id a) = Some cur"
    and rest: "assignPositions db True (setMerge cats (cp_id a) (cur\<lparr>position := Some (cp_position a)\<rparr>)) as
                 = Inr cats'"
    by blast
  from cur have "(cp_id a, cur) \<in> set (categories db)" by (rule map_of_SomeD)
  with assms have "c_id cur = None \<or> c_id cur = Some (cp_id a)" by auto
  then have "c_id (cur\<lparr>position := Some (cp_position a)\<rparr>) = None
           \<or> c_id (cur\<lparr>position := Some (cp_position a)\<rparr>) = Some (cp_id a)" by simp
  from setMerge_own_id[OF Cons.prems(1) this]
  have w: "\<forall>(k, d)\<in>set (setMerge cats (cp_id a) (cur\<lparr>position := Some (cp_position a)\<rparr>)).
             c_id d = None \<or> c_id d = Some k" .
  from Cons.IH[OF w rest] show ?case .
qed

lemma fallbackPositions_own_id:
  "\<forall>(k, d)\<in>set cats. c_id d = None \<or> c_id d = Some k \<Longrightarrow>
   \<forall>c\<in>set ex. c_id c = Some (fallbackTarget c) \<Longrightarrow>
   fallbackPositions as cats ex = Inr cats' \<Longrightarrow>
   \<forall>(k, d)\<in>set cats'. c_id d = None \<or> c_id d = Some k"
proof (induction ex arbitrary: cats)
  case Nil
  then show ?case by simp
next
  case (Cons c ex)
  have "c_id (c\<lparr>position := Some (of_nat (length as))\<rparr>) = None
      \<or> c_id (c\<lparr>position := Some (of_nat (length as))\<rparr>) = Some (fallbackTarget c)"
    using Cons.prems(2) by simp
  from setMerge_own_id[OF Cons.prems(1) this]
  have w: "\<forall>(k, d)\<in>set (setMerge cats (fallbackTarget c) (c\<lparr>position := Some (of_nat (length as))\<rparr>)).
             c_id d = None \<or> c_id d = Some k" .
  have rest: "\<forall>c\<in>set ex. c_id c = Some (fallbackTarget c)" using Cons.prems(2) by simp
  show ?case
  proof (cases "omitted as c")
    case True
    with Cons.prems(3) have
      "fallbackPositions as
         (setMerge cats (fallbackTarget c) (c\<lparr>position := Some (of_nat (length as))\<rparr>)) ex = Inr cats'"
      unfolding fallbackPositions_Cons by (simp split: if_splits)
    from Cons.IH[OF w rest this] show ?thesis .
  next
    case False
    with Cons.prems(3) have "fallbackPositions as cats ex = Inr cats'"
      unfolding fallbackPositions_Cons by simp
    from Cons.IH[OF Cons.prems(1) rest this] show ?thesis .
  qed
qed

lemma reorder_keeps_own_ids:
  assumes wf: "\<forall>(k, d)\<in>set (categories db). c_id d = None \<or> c_id d = Some k"
  shows "\<forall>(k, d)\<in>set (categories (fst (reorderCategories db body))). c_id d = None \<or> c_id d = Some k"
proof (cases "snd (reorderCategories db body)")
  case (Inl e)
  then have "fst (reorderCategories db body) = db"
    by (auto simp: reorderCategories_def runTransaction_def Let_def
          split: option.splits if_splits sum.splits)
  with wf show ?thesis by simp
next
  case (Inr u)
  then obtain as where as: "body = Some as"
    by (cases body) (auto simp: reorderCategories_def)
  have ok: "reorderCategories db (Some as) = (fst (reorderCategories db (Some as)), Inr u)"
    using Inr as by (simp add: prod_eq_iff)
  from reorder_success[OF ok] obtain staged cats' where
    st: "assignPositions db False (categories db) as = Inr staged"
    and fb: "fallbackPositions as staged (existingCategories db) = Inr cats'"
    and db': "fst (reorderCategories db (Some as)) = db\<lparr>categories := cats'\<rparr>"
    by blast
  have s: "\<forall>(k, d)\<in>set staged. c_id d = None \<or> c_id d = Some k"
    by (rule assignPositions_own_id[OF wf wf st])
  have ex: "\<forall>c\<in>set (existingCategories db). c_id c = Some (fallbackTarget c)"
  proof
    fix c assume "c \<in> set (existingCategories db)"
    from existingCategories_id[OF this] obtain i where "c_id c = Some i" by blast
    then show "c_id c = Some (fallbackTarget c)" by (simp add: fallbackTarget_Some)
  qed
  from fallbackPositions_own_id[OF s ex fb] show ?thesis
    by (simp add: as db')
qed

subsection \<open>Product creation and update\<close>

lemma validateProductBody_sizes:
  "validateProductBody body = Inr (n, c, szs) \<Longrightarrow> b_sizes body = Some szs"
  by (auto simp: validateProductBody_def split: if_splits option.splits)

lemma sizeProductionCost_sum:
  "sizeProductionCost sz = (\<Sum>m\<leftarrow>s_materials sz. cost m * (if 0 < m_quantity m then m_quantity m else 1))"
  by (simp add: sizeProductionCost_def foldl_add_sum_list)

lemma processedSizes_map:
  "processedSizes szs =
     map (\<lambda>sz. sz\<lparr>productionCost :=
                    Some (\<Sum>m\<leftarrow>s_materials sz. cost m * (if 0 < m_quantity m then m_quantity m else 1)),
                  profit :=
                    Some (s_price sz - (\<Sum>m\<leftarrow>s_materials sz. cost m * (if 0 < m_quantity m then m_quantity m else 1)))\<rparr>)
         szs"
  by (simp add: processedSizes_def sizeProductionCost_sum Let_def)

lemma product_written:
  assumes "op = createProduct \<or> op = updateProduct" "op db k body = (db', Inr r)"
  shows "\<exists>szs p. b_sizes body = Some szs \<and> fst r = k \<and> inventory db' k = Some p \<and>
           sizes p = processedSizes szs \<and> sizes (snd r) = processedSizes szs"
  using assms(1)
proof
  assume "op = createProduct"
  with assms(2) show ?thesis
    by (auto simp: createProduct_def Let_def
          dest: validateProductBody_sizes split: sum.splits prod.splits if_splits)
next
  assume "op = updateProduct"
  with assms(2) show ?thesis
    by (auto simp: updateProduct_def Let_def
          dest: validateProductBody_sizes split: sum.splits prod.splits option.splits if_splits)
qed

section \<open>Results\<close>

subsection \<open>Ordering more than is in stock\<close>




subsection \<open>Deduction of materials\<close>

text \<open>
  Claim C2, as the code has it. Take a material of an item of the order whose product
  exists. If the deduction \<open>quantity of the material * quantity of the item\<close> would make
  the quantity of any size of that product negative, \<open>placeOrder\<close> fails and returns the
  store unchanged; the error is the insufficient-stock error of the material whenever no
  earlier check fails: the request passes the input check, its customer id (if it has
  one) names an existing customer, and the loops complete on the items before this one,
  on the item itself and on its materials before this one. If the order is accepted and
  this is the only line of the order that touches the product (no other material of the
  order names it and no item orders it), the stored product has every one of its sizes
  decremented by that amount, and \<open>totalQuantity\<close> is their sum.
\<close>

theorem material_deduction_all_sizes:
  assumes items: "b_items body = Some items"
    and pos: "items = ipre @ it # ipost" "i_materials it = mpre @ m # mpost"
    and mp: "inventory db (uid m) = Some mp"
  shows
    "((\<exists>sz\<in>set (sizes mp). s_quantity sz - m_quantity m * i_quantity it < 0) \<longrightarrow>
        fst (placeOrder db oid body) = db \<and> (\<exists>e. snd (placeOrder db oid body) = Inl e) \<and>
        (truthy (b_paymentMethod body) \<and> b_total body \<noteq> None \<and>
         (truthy (b_customerId body) \<longrightarrow> customers db (the (b_customerId body)) \<noteq> None) \<and>
         (\<exists>st1 st2.
            processItems db oid \<lparr>productUpdates = [], materialUpdates = [], stagedLogs = []\<rparr> ipre = Inr st1 \<and>
            processItem db oid st1 (it\<lparr>i_materials := mpre\<rparr>) = Inr st2)
         \<longrightarrow> snd (placeOrder db oid body) = Inl (InsufficientMaterialStock (m_name m)))) \<and>
     (snd (placeOrder db oid body) = Inr oid \<and>
      (\<forall>m'\<in>set (mpre @ mpost). uid m' \<noteq> uid m) \<and>
      (\<forall>it'\<in>set (ipre @ ipost).
          i_productId it' \<noteq> uid m \<and> (\<forall>m'\<in>set (i_materials it'). uid m' \<noteq> uid m)) \<and>
      i_productId it \<noteq> uid m \<longrightarrow>
        inventory (fst (placeOrder db oid body)) (uid m) =
          Some (mp\<lparr>sizes := map (\<lambda>sz. sz\<lparr>s_quantity := s_quantity sz - m_quantity m * i_quantity it\<rparr>)
                               (sizes mp),
                   totalQuantity :=
                     Some (\<Sum>sz\<leftarrow>sizes mp. s_quantity sz - m_quantity m * i_quantity it)\<rparr>))"
proof (intro conjI impI)
  assume "\<exists>sz\<in>set (sizes mp). s_quantity sz - m_quantity m * i_quantity it < 0"
  then obtain sz where sz: "sz \<in> set (sizes mp)" "s_quantity sz - m_quantity m * i_quantity it < 0"
    by blast
  have "\<not> m_quantity m * i_quantity it \<le> s_quantity sz"
    using sz(2) by simp
  with sz(1) have "\<not> materialAvailable db (it, m)"
    using mp by (auto simp: materialAvailable_def list_all_iff)
  moreover have "(it, m) \<in> set (materialRefs items)"
    unfolding materialRefs_split[OF pos] by simp
  ultimately have "\<not> list_all (materialAvailable db) (materialRefs items)"
    by (auto simp: list_all_iff)
  from placeOrder_fails_material[OF items this] obtain e where
    e: "placeOrder db oid body = (db, Inl e)" by blast
  show "fst (placeOrder db oid body) = db" using e by simp
  show "\<exists>e. snd (placeOrder db oid body) = Inl e" using e by simp
  assume h: "truthy (b_paymentMethod body) \<and> b_total body \<noteq> None \<and>
         (truthy (b_customerId body) \<longrightarrow> customers db (the (b_customerId body)) \<noteq> None) \<and>
         (\<exists>st1 st2.
            processItems db oid \<lparr>productUpdates = [], materialUpdates = [], stagedLogs = []\<rparr> ipre = Inr st1 \<and>
            processItem db oid st1 (it\<lparr>i_materials := mpre\<rparr>) = Inr st2)"
  then obtain st1 st2 where st:
    "processItems db oid emptyStaged ipre = Inr st1"
    "processItem db oid st1 (it\<lparr>i_materials := mpre\<rparr>) = Inr st2"
    by (auto simp: emptyStaged_def)
  have "processItems db oid emptyStaged items = Inl (InsufficientMaterialStock (m_name m))"
    unfolding pos(1) processItems_append
    using st(1) processItem_insufficient_material[OF pos(2) st(2) mp sz] by simp
  moreover have "validOrderBody body" "customerKnown db body"
    using h items by (simp_all add: validOrderBody_def customerKnown_def)
  ultimately show "snd (placeOrder db oid body) = Inl (InsufficientMaterialStock (m_name m))"
    using items by (simp add: placeOrder_run)
next
  assume h: "snd (placeOrder db oid body) = Inr oid \<and>
      (\<forall>m'\<in>set (mpre @ mpost). uid m' \<noteq> uid m) \<and>
      (\<forall>it'\<in>set (ipre @ ipost).
          i_productId it' \<noteq> uid m \<and> (\<forall>m'\<in>set (i_materials it'). uid m' \<noteq> uid m)) \<and>
      i_productId it \<noteq> uid m"
  then have ok: "placeOrder db oid body = (fst (placeOrder db oid body), Inr oid)"
    by (simp add: prod_eq_iff)
  have later: "\<forall>m'\<in>set mpost. uid m' \<noteq> uid m"
    "\<forall>it'\<in>set ipost. \<forall>m'\<in>set (i_materials it'). uid m' \<noteq> uid m"
    using h by auto
  show "inventory (fst (placeOrder db oid body)) (uid m) =
          Some (mp\<lparr>sizes := map (\<lambda>sz. sz\<lparr>s_quantity := s_quantity sz - m_quantity m * i_quantity it\<rparr>)
                               (sizes mp),
                   totalQuantity :=
                     Some (\<Sum>sz\<leftarrow>sizes mp. s_quantity sz - m_quantity m * i_quantity it)\<rparr>)"
    using last_material_write[OF ok items pos later] mp
    by (simp add: decremented_def)
qed

text \<open>
  The statement at two orders of a known customer whose material uses three per unit,
  for a material product with two sizes of ten each: four units are refused, two units
  take both sizes to four.
\<close>

theorem material_deduction_all_sizes_witness:
  "fst (placeOrder ex_db ''o1'' (ex_order [ex_item 4 [ex_material 3]] (Some ''c1''))) = ex_db
   \<and> snd (placeOrder ex_db ''o1'' (ex_order [ex_item 4 [ex_material 3]] (Some ''c1'')))
       = Inl (InsufficientMaterialStock ''vaso'')
   \<and> snd (placeOrder ex_db ''o2'' (ex_order [ex_item 2 [ex_material 3]] (Some ''c1''))) = Inr ''o2''
   \<and> map s_quantity (sizes (the (inventory
        (fst (placeOrder ex_db ''o2'' (ex_order [ex_item 2 [ex_material 3]] (Some ''c1'')))) ''m1''))) = [4, 4]
   \<and> totalQuantity (the (inventory
        (fst (placeOrder ex_db ''o2'' (ex_order [ex_item 2 [ex_material 3]] (Some ''c1'')))) ''m1'')) = Some 8"
proof -
  let ?m = "ex_material 3"
  let ?mp = "ex_product ''vaso'' [ex_size ''caja'' 0 10 [], ex_size ''bolsa'' 0 10 []]"
  let ?f = "ex_item 4 [?m]"
  let ?F = "ex_order [?f] (Some ''c1'')"
  let ?it = "ex_item 2 [?m]"
  let ?B = "ex_order [?it] (Some ''c1'')"
  let ?db' = "fst (placeOrder ex_db ''o2'' ?B)"
  have stock: "inventory ex_db (uid ?m) = Some ?mp" by (simp add: ex_db_def ex_material_def)
  have f2: "b_items ?F = Some [?f]" by (simp add: ex_order_def)
  have f3: "[?f] = [] @ ?f # []" by simp
  have f4: "i_materials ?f = [] @ ?m # []" by (simp add: ex_item_def)
  have short: "\<exists>sz\<in>set (sizes ?mp). s_quantity sz - m_quantity ?m * i_quantity ?f < 0"
    by (simp add: ex_defs)
  have pre: "truthy (b_paymentMethod ?F) \<and> b_total ?F \<noteq> None \<and>
         (truthy (b_customerId ?F) \<longrightarrow> customers ex_db (the (b_customerId ?F)) \<noteq> None) \<and>
         (\<exists>st1 st2.
            processItems ex_db ''o1'' \<lparr>productUpdates = [], materialUpdates = [], stagedLogs = []\<rparr> [] = Inr st1 \<and>
            processItem ex_db ''o1'' st1 (?f\<lparr>i_materials := []\<rparr>) = Inr st2)"
    by (simp add: ex_defs order_defs)
  note fails = material_deduction_all_sizes[OF f2 f3 f4 stock, of "''o1''", THEN conjunct1, THEN mp, OF short]
  have unchanged: "fst (placeOrder ex_db ''o1'' ?F) = ex_db"
    by (rule fails[THEN conjunct1])
  have err: "snd (placeOrder ex_db ''o1'' ?F) = Inl (InsufficientMaterialStock (m_name ?m))"
    by (rule fails[THEN conjunct2, THEN conjunct2, THEN mp, OF pre])
  have run: "snd (placeOrder ex_db ''o2'' ?B) = Inr ''o2''"
    by (simp add: ex_defs order_defs)
  have h2: "b_items ?B = Some [?it]" by (simp add: ex_order_def)
  have h3: "[?it] = [] @ ?it # []" by simp
  have h4: "i_materials ?it = [] @ ?m # []" by (simp add: ex_item_def)
  have only: "snd (placeOrder ex_db ''o2'' ?B) = Inr ''o2'' \<and>
      (\<forall>m'\<in>set ([] @ []). uid m' \<noteq> uid ?m) \<and>
      (\<forall>it'\<in>set ([] @ []).
          i_productId it' \<noteq> uid ?m \<and> (\<forall>m'\<in>set (i_materials it'). uid m' \<noteq> uid ?m)) \<and>
      i_productId ?it \<noteq> uid ?m"
    using run by (simp add: ex_item_def ex_material_def)
  have stored: "inventory ?db' (uid ?m) =
          Some (?mp\<lparr>sizes := map (\<lambda>sz. sz\<lparr>s_quantity := s_quantity sz - m_quantity ?m * i_quantity ?it\<rparr>)
                               (sizes ?mp),
                   totalQuantity :=
                     Some (\<Sum>sz\<leftarrow>sizes ?mp. s_quantity sz - m_quantity ?m * i_quantity ?it)\<rparr>)"
    by (rule material_deduction_all_sizes[OF h2 h3 h4 stock, of "''o2''", THEN conjunct2, THEN mp, OF only])
  have stored': "inventory ?db' ''m1'' =
          Some (?mp\<lparr>sizes := map (\<lambda>sz. sz\<lparr>s_quantity := s_quantity sz - 3 * 2\<rparr>) (sizes ?mp),
                   totalQuantity := Some (\<Sum>sz\<leftarrow>sizes ?mp. s_quantity sz - 3 * 2)\<rparr>)"
    using stored by (simp add: ex_material_def ex_item_def)
  have q: "map s_quantity (sizes (the (inventory ?db' ''m1''))) = [4, 4]"
    "totalQuantity (the (inventory ?db' ''m1'')) = Some 8"
    unfolding stored' by (simp_all add: ex_product_def ex_size_def)
  show ?thesis
    using unchanged err run q by (simp add: ex_material_def)
qed

text \<open>
  Claim C2 as stated keeps every size but the first unchanged. In the accepted order of
  two units the second size of the material product goes from ten to four as well.
\<close>

theorem first_variant_only_counterexample:
  "snd (placeOrder ex_db ''o1'' (ex_order [ex_item 2 [ex_material 3]] (Some ''c1''))) = Inr ''o1''
   \<and> map s_quantity (sizes (the (inventory ex_db ''m1''))) = [10, 10]
   \<and> map s_quantity (sizes (the (inventory
        (fst (placeOrder ex_db ''o1'' (ex_order [ex_item 2 [ex_material 3]] (Some ''c1'')))) ''m1''))) = [4, 4]"
  by (simp add: ex_defs order_defs)

subsection \<open>Cost and profit of a size at creation and update\<close>

text \<open>
  Claim C3, as the code has it. When POST /products or PUT /products/:id succeeds, the
  stored product and the returned one have the sizes of the request, each with
  \<open>productionCost = sum of cost * (quantity if quantity > 0, else 1)\<close> over its materials
  and \<open>profit = price - productionCost\<close>. When no material quantity lies strictly between
  0 and 1 (whole numbers in particular), this is the sum of \<open>cost * max quantity 1\<close>.
\<close>

theorem processedSizes_cost:
  assumes "op = createProduct \<or> op = updateProduct" and "op db k body = (db', Inr r)"
  shows "\<exists>szs p. b_sizes body = Some szs \<and> inventory db' k = Some p \<and> sizes (snd r) = sizes p \<and>
           sizes p =
             map (\<lambda>sz. sz\<lparr>productionCost :=
                            Some (\<Sum>m\<leftarrow>s_materials sz. cost m * (if 0 < m_quantity m then m_quantity m else 1)),
                          profit :=
                            Some (s_price sz - (\<Sum>m\<leftarrow>s_materials sz. cost m * (if 0 < m_quantity m then m_quantity m else 1)))\<rparr>)
                 szs \<and>
           ((\<forall>sz\<in>set szs. \<forall>m\<in>set (s_materials sz). m_quantity m \<le> 0 \<or> 1 \<le> m_quantity m) \<longrightarrow>
              sizes p =
                map (\<lambda>sz. sz\<lparr>productionCost :=
                               Some (\<Sum>m\<leftarrow>s_materials sz. cost m * max (m_quantity m) 1),
                             profit :=
                               Some (s_price sz - (\<Sum>m\<leftarrow>s_materials sz. cost m * max (m_quantity m) 1))\<rparr>)
                    szs)"
proof -
  from product_written[OF assms] obtain szs p where
    w: "b_sizes body = Some szs" "inventory db' k = Some p"
       "sizes p = processedSizes szs" "sizes (snd r) = processedSizes szs" by blast
  have whole: "processedSizes szs =
                map (\<lambda>sz. sz\<lparr>productionCost :=
                               Some (\<Sum>m\<leftarrow>s_materials sz. cost m * max (m_quantity m) 1),
                             profit :=
                               Some (s_price sz - (\<Sum>m\<leftarrow>s_materials sz. cost m * max (m_quantity m) 1))\<rparr>)
                    szs"
    if "\<forall>sz\<in>set szs. \<forall>m\<in>set (s_materials sz). m_quantity m \<le> 0 \<or> 1 \<le> m_quantity m"
    unfolding processedSizes_map using that
    by (intro map_cong refl) (simp add: guarded_sum_max)
  show ?thesis
    using w whole by (auto simp: processedSizes_map)
qed

text \<open>
  The statement at a product created with a size of price 10 whose material of cost 2 is
  used 3 times (cost 6, profit 4) and a size of price 15 whose material of cost 2 is used
  0 times (cost 2, profit 13), and at an update that gives an existing product one size
  of price 12 whose material is used twice (cost 4, profit 8).
\<close>

theorem processedSizes_cost_witness:
  "map productionCost (sizes (the (inventory (fst (createProduct ex_db ''p9''
          (ex_productBody [ex_size ''chico'' 10 5 [ex_material 3], ex_size ''grande'' 15 3 [ex_material 0]]))) ''p9'')))
       = [Some 6, Some 2]
   \<and> map profit (sizes (the (inventory (fst (createProduct ex_db ''p9''
          (ex_productBody [ex_size ''chico'' 10 5 [ex_material 3], ex_size ''grande'' 15 3 [ex_material 0]]))) ''p9'')))
       = [Some 4, Some 13]
   \<and> map productionCost (sizes (the (inventory (fst (updateProduct ex_db ''p1''
          (ex_productBody [ex_size ''chico'' 12 5 [ex_material 2]]))) ''p1'')))
       = [Some 4]
   \<and> map profit (sizes (the (inventory (fst (updateProduct ex_db ''p1''
          (ex_productBody [ex_size ''chico'' 12 5 [ex_material 2]]))) ''p1'')))
       = [Some 8]"
proof -
  let ?szs = "[ex_size ''chico'' 10 5 [ex_material 3], ex_size ''grande'' 15 3 [ex_material 0]]"
  let ?C = "createProduct ex_db ''p9'' (ex_productBody ?szs)"
  let ?uzs = "[ex_size ''chico'' 12 5 [ex_material 2]]"
  let ?U = "updateProduct ex_db ''p1'' (ex_productBody ?uzs)"
  have runC: "snd ?C = Inr (projr (snd ?C))"
    by (simp add: ex_defs ex_productBody_def product_defs)
  have okC: "?C = (fst ?C, Inr (projr (snd ?C)))"
    using runC by (simp add: prod_eq_iff)
  have runU: "snd ?U = Inr (projr (snd ?U))"
    by (simp add: ex_defs ex_productBody_def product_defs)
  have okU: "?U = (fst ?U, Inr (projr (snd ?U)))"
    using runU by (simp add: prod_eq_iff)
  have wholeC: "\<forall>sz\<in>set ?szs. \<forall>m\<in>set (s_materials sz). m_quantity m \<le> 0 \<or> 1 \<le> m_quantity m"
    by (simp add: ex_defs)
  have wholeU: "\<forall>sz\<in>set ?uzs. \<forall>m\<in>set (s_materials sz). m_quantity m \<le> 0 \<or> 1 \<le> m_quantity m"
    by (simp add: ex_defs)
  from processedSizes_cost[OF disjI1[OF refl] okC] wholeC
  have c: "sizes (the (inventory (fst ?C) ''p9'')) =
          map (\<lambda>sz. sz\<lparr>productionCost := Some (\<Sum>m\<leftarrow>s_materials sz. cost m * max (m_quantity m) 1),
                       profit := Some (s_price sz - (\<Sum>m\<leftarrow>s_materials sz. cost m * max (m_quantity m) 1))\<rparr>)
              ?szs"
    by (auto simp: ex_productBody_def)
  from processedSizes_cost[OF disjI2[OF refl] okU] wholeU
  have u: "sizes (the (inventory (fst ?U) ''p1'')) =
          map (\<lambda>sz. sz\<lparr>productionCost := Some (\<Sum>m\<leftarrow>s_materials sz. cost m * max (m_quantity m) 1),
                       profit := Some (s_price sz - (\<Sum>m\<leftarrow>s_materials sz. cost m * max (m_quantity m) 1))\<rparr>)
              ?uzs"
    by (auto simp: ex_productBody_def)
  show ?thesis
    unfolding c u by (simp add: ex_size_def ex_material_def)
qed

text \<open>
  Claim C3 as stated takes \<open>max quantity 1\<close> for every quantity. A material of cost 2
  with quantity 1/2 is returned and stored with production cost 1, while
  \<open>2 * max (1/2) 1\<close> is 2.
\<close>

theorem processedSizes_max_counterexample:
  "map productionCost (sizes (snd (projr (snd (createProduct ex_db ''p9''
          (ex_productBody [ex_size ''chico'' 10 5 [ex_material (1/2)]])))))) = [Some 1]
   \<and> map productionCost (sizes (the (inventory (fst (createProduct ex_db ''p9''
          (ex_productBody [ex_size ''chico'' 10 5 [ex_material (1/2)]]))) ''p9''))) = [Some 1]
   \<and> cost (ex_material (1/2)) * max (m_quantity (ex_material (1/2))) 1 = 2"
  by (simp add: ex_defs ex_productBody_def product_defs)

subsection \<open>Production cost of an order\<close>

text \<open>
  Claim C4, as the code has it. The order document written by an accepted order holds
  the items of the request and the production cost
  \<open>sum over items of (sum over the item's materials of cost * (quantity if quantity > 0,
  else 1)) * quantity of the item\<close>. When no material quantity lies strictly between 0 and
  1, this is the sum with \<open>max quantity 1\<close>.
\<close>

theorem order_productionCost:
  assumes "placeOrder db oid body = (db', Inr x)"
  shows "\<exists>items od. b_items body = Some items \<and> orders db' oid = Some od \<and> o_items od = items \<and>
           o_productionCost od =
             (\<Sum>item\<leftarrow>items.
                (\<Sum>m\<leftarrow>i_materials item. cost m * (if 0 < m_quantity m then m_quantity m else 1))
                * i_quantity item) \<and>
           ((\<forall>item\<in>set items. \<forall>m\<in>set (i_materials item). m_quantity m \<le> 0 \<or> 1 \<le> m_quantity m) \<longrightarrow>
              o_productionCost od =
                (\<Sum>item\<leftarrow>items. (\<Sum>m\<leftarrow>i_materials item. cost m * max (m_quantity m) 1) * i_quantity item))"
proof -
  from placeOrder_success[OF assms]
  have v: "validOrderBody body" and o: "orders db' = (orders db)(oid \<mapsto> orderDataOf body)"
    by simp_all
  from v obtain items where items: "b_items body = Some items"
    by (auto simp: validOrderBody_def)
  have whole: "(\<Sum>item\<leftarrow>items.
                (\<Sum>m\<leftarrow>i_materials item. cost m * (if 0 < m_quantity m then m_quantity m else 1))
                * i_quantity item)
      = (\<Sum>item\<leftarrow>items. (\<Sum>m\<leftarrow>i_materials item. cost m * max (m_quantity m) 1) * i_quantity item)"
    if "\<forall>item\<in>set items. \<forall>m\<in>set (i_materials item). m_quantity m \<le> 0 \<or> 1 \<le> m_quantity m"
  proof -
    have "map (\<lambda>item. (\<Sum>m\<leftarrow>i_materials item. cost m * (if 0 < m_quantity m then m_quantity m else 1))
                * i_quantity item) items
        = map (\<lambda>item. (\<Sum>m\<leftarrow>i_materials item. cost m * max (m_quantity m) 1) * i_quantity item) items"
      using that by (intro map_cong refl) (simp add: guarded_sum_max)
    then show ?thesis by (rule arg_cong)
  qed
  show ?thesis
    using items o whole
    by (simp add: orderDataOf_def orderProductionCost_sum)
qed

text \<open>
  The statement at an order of two units with a material used three times and a material
  used zero times per unit, both of cost 2: \<open>(2 * 3 + 2 * 1) * 2 = 16\<close>.
\<close>

theorem order_productionCost_witness:
  "snd (placeOrder ex_db ''o1'' (ex_order [ex_item 2 [ex_material 3, ex_material 0]] (Some ''c1''))) = Inr ''o1''
   \<and> o_productionCost (the (orders
        (fst (placeOrder ex_db ''o1'' (ex_order [ex_item 2 [ex_material 3, ex_material 0]] (Some ''c1'')))) ''o1''))
       = 16"
proof -
  let ?it = "ex_item 2 [ex_material 3, ex_material 0]"
  let ?B = "ex_order [?it] (Some ''c1'')"
  let ?db' = "fst (placeOrder ex_db ''o1'' ?B)"
  have run: "snd (placeOrder ex_db ''o1'' ?B) = Inr ''o1''"
    by (simp add: ex_defs order_defs)
  have ok: "placeOrder ex_db ''o1'' ?B = (?db', Inr ''o1'')"
    by (simp add: prod_eq_iff run)
  have whole: "\<forall>item\<in>set [?it]. \<forall>m\<in>set (i_materials item). m_quantity m \<le> 0 \<or> 1 \<le> m_quantity m"
    by (simp add: ex_defs)
  from order_productionCost[OF ok] whole
  have "o_productionCost (the (orders ?db' ''o1'')) =
          (\<Sum>item\<leftarrow>[?it]. (\<Sum>m\<leftarrow>i_materials item. cost m * max (m_quantity m) 1) * i_quantity item)"
    by (auto simp: ex_order_def)
  then show ?thesis
    using run by (simp add: ex_item_def ex_material_def)
qed

text \<open>
  Claim C4 as stated takes \<open>max quantity 1\<close> for every quantity. An accepted order of two
  units with one material of cost 2 and quantity 1/2 is stored with production cost 2,
  while \<open>2 * max (1/2) 1 * 2\<close> is 4.
\<close>

theorem order_cost_max_counterexample:
  "snd (placeOrder ex_db ''o1'' (ex_order [ex_item 2 [ex_material (1/2)]] (Some ''c1''))) = Inr ''o1''
   \<and> o_productionCost (the (orders
        (fst (placeOrder ex_db ''o1'' (ex_order [ex_item 2 [ex_material (1/2)]] (Some ''c1'')))) ''o1'')) = 2
   \<and> cost (ex_material (1/2)) * max (m_quantity (ex_material (1/2))) 1
        * i_quantity (ex_item 2 [ex_material (1/2)]) = 4"
  by (simp add: ex_defs order_defs)

subsection \<open>Cost and profit of a size at a stock adjustment\<close>

text \<open>
  Claim C5, as the code has it. When PATCH /products/:id/stock succeeds, the product
  exists and has a size of the requested name; the stored sizes are the old ones, where
  each size of that name has its quantity changed by the delta,
  \<open>productionCost = sum of cost * quantity of the material\<close> over its materials, with no
  guard on the material quantity, and \<open>profit = price - productionCost\<close>. The quantity
  on hand of the size, old or new, is no factor of the cost. The other sizes are as they
  were.
\<close>

theorem adjustStock_cost:
  assumes "adjustStock db pid body = (db', Inr (szs', logEntry))"
  shows "\<exists>p n. sb_sizeName body = Some n \<and> inventory db pid = Some p \<and>
           (\<exists>sz\<in>set (sizes p). s_name sz = n) \<and>
           inventory db' pid = Some (p\<lparr>sizes := szs'\<rparr>) \<and>
           szs' = map (\<lambda>sz. if s_name sz = n
                        then sz\<lparr>s_quantity := s_quantity sz + quantityDelta body,
                               productionCost := Some (\<Sum>m\<leftarrow>s_materials sz. cost m * m_quantity m),
                               profit := Some (s_price sz - (\<Sum>m\<leftarrow>s_materials sz. cost m * m_quantity m))\<rparr>
                        else sz) (sizes p)"
proof -
  from assms obtain n where n: "sb_sizeName body = Some n"
    by (cases "sb_sizeName body") (auto simp: adjustStock_def truthy_def)
  from assms n obtain p where p: "inventory db pid = Some p"
    by (cases "inventory db pid") (auto simp: adjustStock_def Let_def split: if_splits)
  from assms n p obtain ys where ys: "mapE (adjustSize n (quantityDelta body)) (sizes p) = Inr ys"
    by (cases "mapE (adjustSize n (quantityDelta body)) (sizes p)")
       (auto simp: adjustStock_def Let_def split: if_splits)
  from assms n p ys have ex: "list_ex (\<lambda>sz. s_name sz = n) (sizes p)"
    and res: "szs' = ys" "db' = db\<lparr>inventory := (inventory db)(pid \<mapsto> p\<lparr>sizes := ys\<rparr>),
                             stockLogs := stockLogs db @ [logEntry]\<rparr>"
    by (auto simp: adjustStock_def Let_def split: if_splits)
  show ?thesis
    using n p ex res ys[unfolded mapE_adjustSize]
    by (auto simp: list_ex_iff)
qed

text \<open>
  The statement at a size of price 15 with one material of cost 2 and quantity 0: the
  recomputed cost is 0 and the profit 15.
\<close>

theorem adjustStock_cost_witness:
  "map s_quantity (fst (projr (snd (adjustStock ex_db ''p1''
       \<lparr>sb_sizeName = Some ''grande'', quantityDelta = 2, sb_notes = None\<rparr>)))) = [5, 5]
   \<and> map productionCost (fst (projr (snd (adjustStock ex_db ''p1''
       \<lparr>sb_sizeName = Some ''grande'', quantityDelta = 2, sb_notes = None\<rparr>)))) = [None, Some 0]
   \<and> map profit (fst (projr (snd (adjustStock ex_db ''p1''
       \<lparr>sb_sizeName = Some ''grande'', quantityDelta = 2, sb_notes = None\<rparr>)))) = [None, Some 15]"
proof -
  let ?B = "\<lparr>sb_sizeName = Some ''grande'', quantityDelta = 2, sb_notes = None\<rparr>"
  let ?R = "adjustStock ex_db ''p1'' ?B"
  have run: "snd ?R = Inr (fst (projr (snd ?R)), snd (projr (snd ?R)))"
    by (simp add: ex_defs stock_defs)
  have ok: "?R = (fst ?R, Inr (fst (projr (snd ?R)), snd (projr (snd ?R))))"
    using run by (simp add: prod_eq_iff)
  from adjustStock_cost[OF ok]
  have "fst (projr (snd ?R)) =
          map (\<lambda>sz. if s_name sz = ''grande''
                     then sz\<lparr>s_quantity := s_quantity sz + 2,
                            productionCost := Some (\<Sum>m\<leftarrow>s_materials sz. cost m * m_quantity m),
                            profit := Some (s_price sz - (\<Sum>m\<leftarrow>s_materials sz. cost m * m_quantity m))\<rparr>
                     else sz) (sizes (the (inventory ex_db ''p1'')))"
    by auto
  then show ?thesis
    by (simp add: ex_defs)
qed

text \<open>
  Claim C5 as stated has the current quantity on hand as the multiplier of the material
  cost. A size of price 10 with 5 on hand and one material of cost 2 and quantity 3,
  adjusted by 1, is stored with 6 on hand, production cost \<open>2 * 3 = 6\<close> and profit 4.
  With the quantity on hand as multiplier the cost would be 10 before the adjustment
  and 12 after it.
\<close>

theorem adjustStock_quantityOnHand_counterexample:
  "map s_quantity (sizes (the (inventory ex_db ''p1''))) = [5, 3]
   \<and> map s_materials (sizes (the (inventory ex_db ''p1'')))
       = [[\<lparr>uid = ''m1'', m_name = ''vaso'', cost = 2, m_quantity = 3\<rparr>],
          [\<lparr>uid = ''m1'', m_name = ''vaso'', cost = 2, m_quantity = 0\<rparr>]]
   \<and> map s_quantity (fst (projr (snd (adjustStock ex_db ''p1''
       \<lparr>sb_sizeName = Some ''chico'', quantityDelta = 1, sb_notes = None\<rparr>)))) = [6, 3]
   \<and> map productionCost (fst (projr (snd (adjustStock ex_db ''p1''
       \<lparr>sb_sizeName = Some ''chico'', quantityDelta = 1, sb_notes = None\<rparr>)))) = [Some 6, None]
   \<and> map profit (fst (projr (snd (adjustStock ex_db ''p1''
       \<lparr>sb_sizeName = Some ''chico'', quantityDelta = 1, sb_notes = None\<rparr>)))) = [Some 4, None]
   \<and> map (\<lambda>sz. \<Sum>m\<leftarrow>s_materials sz. cost m * s_quantity sz) (sizes (the (inventory ex_db ''p1'')))
       = [10, 6]
   \<and> map (\<lambda>sz. \<Sum>m\<leftarrow>s_materials sz. cost m * s_quantity sz) (fst (projr (snd (adjustStock ex_db ''p1''
       \<lparr>sb_sizeName = Some ''chico'', quantityDelta = 1, sb_notes = None\<rparr>)))) = [12, 6]"
  by (simp add: ex_defs stock_defs)

subsection \<open>Stock log entries of an order\<close>

text \<open>
  Claim C6, where the code departs from it. An accepted order appends one entry for each
  pair of an item and one of its materials, and every entry is computed from the
  quantities read when the transaction began: \<open>totalStockBefore\<close> is the quantity the
  first size of the material's product had then, \<open>totalStockAfter\<close> is that quantity less
  the deduction of this line alone. The product itself is stored with the deduction of
  the last line that names it, and of no other line: each line writes all sizes of the
  product, so a later write replaces an earlier one. When two lines of an order name one
  product, the entry of the earlier line therefore reports a quantity after the
  deduction that the first size does not have.
\<close>

theorem order_log_lost_update:
  assumes ok: "placeOrder db oid body = (db', Inr x)"
    and items: "b_items body = Some items"
    and pos: "items = ipre @ it # ipost" "i_materials it = mpre @ m # mpost"
    and later: "\<forall>m'\<in>set mpost. uid m' \<noteq> uid m"
       "\<forall>it'\<in>set ipost. \<forall>m'\<in>set (i_materials it'). uid m' \<noteq> uid m"
  shows "stockLogs db' = stockLogs db @
       concat (map (\<lambda>it. map (\<lambda>m.
          \<lparr> totalStockBefore =
              (case sizes (the (inventory db (uid m))) of [] \<Rightarrow> 0 | s # _ \<Rightarrow> s_quantity s),
            addedStock = - (m_quantity m * i_quantity it),
            totalStockAfter =
              (case sizes (the (inventory db (uid m))) of
                 [] \<Rightarrow> 0 | s # _ \<Rightarrow> s_quantity s - m_quantity m * i_quantity it),
            h_notes = ''Deducci'' @ [CHR 0xF3] @ ''n por orden '' @ oid,
            sizeName = (case sizes (the (inventory db (uid m))) of
                          [] \<Rightarrow> ''Default''
                        | s # _ \<Rightarrow> if s_name s = [] then ''Default'' else s_name s),
            productId = uid m,
            productName = m_name m \<rparr>) (i_materials it)) items) \<and>
     (\<exists>mp. inventory db (uid m) = Some mp \<and>
        inventory db' (uid m) =
          Some (mp\<lparr>sizes := map (\<lambda>sz. sz\<lparr>s_quantity := s_quantity sz - m_quantity m * i_quantity it\<rparr>)
                               (sizes mp),
                   totalQuantity :=
                     Some (\<Sum>sz\<leftarrow>sizes mp. s_quantity sz - m_quantity m * i_quantity it)\<rparr>))"
proof
  show "stockLogs db' = stockLogs db @
       concat (map (\<lambda>it. map (\<lambda>m.
          \<lparr> totalStockBefore =
              (case sizes (the (inventory db (uid m))) of [] \<Rightarrow> 0 | s # _ \<Rightarrow> s_quantity s),
            addedStock = - (m_quantity m * i_quantity it),
            totalStockAfter =
              (case sizes (the (inventory db (uid m))) of
                 [] \<Rightarrow> 0 | s # _ \<Rightarrow> s_quantity s - m_quantity m * i_quantity it),
            h_notes = ''Deducci'' @ [CHR 0xF3] @ ''n por orden '' @ oid,
            sizeName = (case sizes (the (inventory db (uid m))) of
                          [] \<Rightarrow> ''Default''
                        | s # _ \<Rightarrow> if s_name s = [] then ''Default'' else s_name s),
            productId = uid m,
            productName = m_name m \<rparr>) (i_materials it)) items)"
    using order_log_entries[OF ok items] by blast
next
  have "it \<in> set items" "m \<in> set (i_materials it)" using pos by simp_all
  from material_available[OF ok items this] obtain mp where
    mp: "inventory db (uid m) = Some mp" by blast
  show "\<exists>mp. inventory db (uid m) = Some mp \<and>
        inventory db' (uid m) =
          Some (mp\<lparr>sizes := map (\<lambda>sz. sz\<lparr>s_quantity := s_quantity sz - m_quantity m * i_quantity it\<rparr>)
                               (sizes mp),
                   totalQuantity :=
                     Some (\<Sum>sz\<leftarrow>sizes mp. s_quantity sz - m_quantity m * i_quantity it)\<rparr>)"
    using last_material_write[OF ok items pos later] mp
    by (simp add: decremented_def)
qed

text \<open>
  The statement at an order with two lines on one material. A known customer orders two
  units of one size and one unit of another size of a product; each unit of either size
  uses three units of the material m1, whose product has ten in each of its two sizes.
  The first entry says that the first size of m1 went from 10 to 4, the second that it
  went from 10 to 7, and the stored first size ends at 7: the entries add up to a
  deduction of 9 where the stock fell by 3.
\<close>

theorem order_log_lost_update_witness:
  "snd (placeOrder ex_db ''o1''
          (ex_order [ex_item 2 [ex_material 3], ex_item_grande 1 [ex_material 3]] (Some ''c1''))) = Inr ''o1''
   \<and> map s_quantity (sizes (the (inventory ex_db ''m1''))) = [10, 10]
   \<and> map (\<lambda>l. (productId l, sizeName l, totalStockBefore l, addedStock l, totalStockAfter l))
        (stockLogs (fst (placeOrder ex_db ''o1''
          (ex_order [ex_item 2 [ex_material 3], ex_item_grande 1 [ex_material 3]] (Some ''c1'')))))
       = [(''m1'', ''caja'', 10, - 6, 4), (''m1'', ''caja'', 10, - 3, 7)]
   \<and> map s_quantity (sizes (the (inventory (fst (placeOrder ex_db ''o1''
          (ex_order [ex_item 2 [ex_material 3], ex_item_grande 1 [ex_material 3]] (Some ''c1'')))) ''m1'')))
       = [7, 7]"
proof -
  let ?m = "ex_material 3"
  let ?i1 = "ex_item 2 [?m]"
  let ?i2 = "ex_item_grande 1 [?m]"
  let ?B = "ex_order [?i1, ?i2] (Some ''c1'')"
  let ?db' = "fst (placeOrder ex_db ''o1'' ?B)"
  have run: "snd (placeOrder ex_db ''o1'' ?B) = Inr ''o1''"
    by (simp add: ex_defs order_defs)
  have ok: "placeOrder ex_db ''o1'' ?B = (?db', Inr ''o1'')"
    by (simp add: prod_eq_iff run)
  have h2: "b_items ?B = Some [?i1, ?i2]" by (simp add: ex_order_def)
  have h3: "[?i1, ?i2] = [?i1] @ ?i2 # []" by simp
  have h4: "i_materials ?i2 = [] @ ?m # []" by (simp add: ex_item_grande_def)
  have h5: "\<forall>m'\<in>set []. uid m' \<noteq> uid ?m" by simp
  have h6: "\<forall>it'\<in>set []. \<forall>m'\<in>set (i_materials it'). uid m' \<noteq> uid ?m" by simp
  note t = order_log_lost_update[OF ok h2 h3 h4 h5 h6]
  have before: "map s_quantity (sizes (the (inventory ex_db ''m1''))) = [10, 10]"
    by (simp add: ex_defs)
  have logs: "map (\<lambda>l. (productId l, sizeName l, totalStockBefore l, addedStock l, totalStockAfter l))
        (stockLogs ?db') = [(''m1'', ''caja'', 10, - 6, 4), (''m1'', ''caja'', 10, - 3, 7)]"
    unfolding t[THEN conjunct1] by (simp add: ex_defs)
  from t[THEN conjunct2] obtain mp where
    mp: "inventory ex_db (uid ?m) = Some mp"
    and new: "inventory ?db' (uid ?m) =
          Some (mp\<lparr>sizes := map (\<lambda>sz. sz\<lparr>s_quantity := s_quantity sz - m_quantity ?m * i_quantity ?i2\<rparr>)
                               (sizes mp),
                   totalQuantity :=
                     Some (\<Sum>sz\<leftarrow>sizes mp. s_quantity sz - m_quantity ?m * i_quantity ?i2)\<rparr>)"
    by blast
  from mp have mpv: "mp = ex_product ''vaso'' [ex_size ''caja'' 0 10 [], ex_size ''bolsa'' 0 10 []]"
    by (simp add: ex_db_def ex_material_def)
  have "uid ?m = ''m1''" by (simp add: ex_material_def)
  with new have after: "map s_quantity (sizes (the (inventory ?db' ''m1''))) = [7, 7]"
    by (simp add: mpv ex_product_def ex_size_def ex_material_def ex_item_grande_def)
  show ?thesis
    using run before logs after by simp
qed

subsection \<open>Positions after a reorder\<close>

text \<open>
  Claim C7, as the code has it. Let the category documents of the store have distinct
  ids and carry no \<open>id\<close> field other than their own document id. After a successful
  reorder the collection has the same documents in the same order, and every one of them
  has a position: the position the request gives for it, or the length of the request
  when the request does not name it. The positions are stored as they are given; nothing
  makes them contiguous or distinct.
\<close>

theorem reorder_position_invariant:
  assumes ok: "reorderCategories db (Some as) = (db', Inr u)"
    and wf: "\<forall>(k, d)\<in>set (categories db). c_id d = None \<or> c_id d = Some k"
    and dk: "distinct (map fst (categories db))"
  shows "map fst (categories db') = map fst (categories db) \<and>
     (\<forall>(k, c)\<in>set (categories db').
        position c =
          (case find (\<lambda>a. cp_id a = k) (rev as) of
             None \<Rightarrow> Some (of_nat (length as))
           | Some a \<Rightarrow> Some (cp_position a)))"
proof
  show keys: "map fst (categories db') = map fst (categories db)"
    by (rule reorder_keys[OF ok wf])
  have dk': "distinct (map fst (categories db'))" using dk keys by simp
  show "\<forall>(k, c)\<in>set (categories db').
        position c =
          (case find (\<lambda>a. cp_id a = k) (rev as) of
             None \<Rightarrow> Some (of_nat (length as))
           | Some a \<Rightarrow> Some (cp_position a))"
  proof (clarify)
    fix k c assume kc: "(k, c) \<in> set (categories db')"
    then have "k \<in> fst ` set (categories db')" by force
    then have k: "k \<in> fst ` set (categories db)"
      using keys by (metis set_map)
    have pc: "position c = positionOf (categories db') k"
      using position_by_key[OF dk' kc] by simp
    show "position c =
          (case find (\<lambda>a. cp_id a = k) (rev as) of
             None \<Rightarrow> Some (of_nat (length as))
           | Some a \<Rightarrow> Some (cp_position a))"
    proof (cases "k \<in> cp_id ` set as")
      case False
      then have "find (\<lambda>a. cp_id a = k) (rev as) = None"
        by (auto simp: find_None_iff)
      with omitted_position[OF ok wf k False] pc show ?thesis by simp
    next
      case True
      then have "\<exists>b\<in>set as. cp_id b = k" by auto
      from split_list_last_prop[OF this] obtain pre b post where
        sp: "as = pre @ b # post" "cp_id b = k" "\<forall>z\<in>set post. cp_id z \<noteq> k" by blast
      have "find (\<lambda>a. cp_id a = k) (rev as) = Some b"
        unfolding sp(1) using sp(2,3) by (intro find_rev_last) auto
      moreover have "positionOf (categories db') k = Some (cp_position b)"
        using listed_position[OF ok sp(1)] sp(2,3) by simp
      ultimately show ?thesis using pc by simp
    qed
  qed
qed

text \<open>
  The statement at the request \<open>[B at 5]\<close> over the categories A, B and C: B has the
  position 5, A and C have the position 1.
\<close>

theorem reorder_position_invariant_witness:
  "snd (reorderCategories ex_db (Some [\<lparr>cp_id = ''B'', cp_position = 5\<rparr>])) = Inr ()
   \<and> map fst (categories (fst (reorderCategories ex_db (Some [\<lparr>cp_id = ''B'', cp_position = 5\<rparr>]))))
       = [''A'', ''B'', ''C'']
   \<and> map (position \<circ> snd)
        (categories (fst (reorderCategories ex_db (Some [\<lparr>cp_id = ''B'', cp_position = 5\<rparr>]))))
       = [Some 1, Some 5, Some 1]"
proof -
  let ?as = "[\<lparr>cp_id = ''B'', cp_position = 5\<rparr>]"
  let ?db' = "fst (reorderCategories ex_db (Some ?as))"
  have run: "snd (reorderCategories ex_db (Some ?as)) = Inr ()"
    by (simp add: ex_defs category_defs)
  have ok: "reorderCategories ex_db (Some ?as) = (?db', Inr ())"
    by (simp add: prod_eq_iff run)
  have wf: "\<forall>(k, d)\<in>set (categories ex_db). c_id d = None \<or> c_id d = Some k"
    by (simp add: ex_defs)
  have dk: "distinct (map fst (categories ex_db))"
    by (simp add: ex_defs)
  note t = reorder_position_invariant[OF ok wf dk]
  have keys: "map fst (categories ?db') = [''A'', ''B'', ''C'']"
    using t[THEN conjunct1] by (simp add: ex_db_def)
  then obtain a b c where cs: "categories ?db' = [(''A'', a), (''B'', b), (''C'', c)]"
    by (auto simp: map_eq_Cons_conv)
  have "position a = Some 1" "position b = Some 5" "position c = Some 1"
    using t[THEN conjunct2] unfolding cs by simp_all
  then show ?thesis
    using run keys unfolding cs by simp
qed

text \<open>
  Claim C7 as stated holds after every successful reorder. A request that only places
  the first of three categories at 0 succeeds and leaves the other two both at 1.
\<close>

theorem reorder_contiguity_counterexample:
  "snd (reorderCategories ex_db (Some [\<lparr>cp_id = ''A'', cp_position = 0\<rparr>])) = Inr ()
   \<and> map fst (categories (fst (reorderCategories ex_db (Some [\<lparr>cp_id = ''A'', cp_position = 0\<rparr>]))))
       = [''A'', ''B'', ''C'']
   \<and> map (position \<circ> snd)
        (categories (fst (reorderCategories ex_db (Some [\<lparr>cp_id = ''A'', cp_position = 0\<rparr>]))))
       = [Some 0, Some 1, Some 1]"
  by (simp add: ex_defs category_defs)

subsection \<open>What a reorder assigns\<close>

text \<open>
  Claim C8, where the code departs from it. A request with two or more entries, none
  with an empty id, whose first entry names an existing category fails and changes
  nothing: the loop reads the document of the second entry after it has staged the write
  of the first, and the store client refuses a read that follows a write in the same
  transaction. No position is assigned.
\<close>

theorem reorder_read_after_write:
  assumes "\<forall>c\<in>set (a # b # as). cp_id c \<noteq> []" "map_of (categories db) (cp_id a) \<noteq> None"
  shows "reorderCategories db (Some (a # b # as)) = (db, Inl ReadAfterWrite)"
proof -
  have "\<not> list_ex (\<lambda>cat. cp_id cat = []) (a # b # as)"
    using assms(1) by (simp add: list_ex_iff)
  then show ?thesis
    using assignPositions_second_read[OF assms(2), of "categories db" b as]
    by (simp add: reorderCategories_def runTransaction_def Let_def
          del: assignPositions.simps)
qed

text \<open>
  The statement at the example of the specification: the request \<open>[A at 1, B at 0]\<close>
  over the categories A, B and C fails. So does the request \<open>[A at 1, Z at 0]\<close> with
  the unknown category Z, with the same error and not with \<open>CategoryNotFound\<close>; the
  request \<open>[Z at 0]\<close> alone does fail with \<open>CategoryNotFound\<close>.
\<close>

theorem reorder_read_after_write_witness:
  "map fst (categories ex_db) = [''A'', ''B'', ''C'']
   \<and> reorderCategories ex_db
        (Some [\<lparr>cp_id = ''A'', cp_position = 1\<rparr>, \<lparr>cp_id = ''B'', cp_position = 0\<rparr>])
       = (ex_db, Inl ReadAfterWrite)
   \<and> reorderCategories ex_db
        (Some [\<lparr>cp_id = ''A'', cp_position = 1\<rparr>, \<lparr>cp_id = ''Z'', cp_position = 0\<rparr>])
       = (ex_db, Inl ReadAfterWrite)
   \<and> reorderCategories ex_db (Some [\<lparr>cp_id = ''Z'', cp_position = 0\<rparr>])
       = (ex_db, Inl (CategoryNotFound ''Z''))"
proof -
  let ?a = "\<lparr>cp_id = ''A'', cp_position = 1\<rparr>"
  let ?b = "\<lparr>cp_id = ''B'', cp_position = 0\<rparr>"
  let ?z = "\<lparr>cp_id = ''Z'', cp_position = 0\<rparr>"
  have found: "map_of (categories ex_db) (cp_id ?a) \<noteq> None"
    by (simp add: ex_db_def)
  have idsb: "\<forall>c\<in>set (?a # ?b # []). cp_id c \<noteq> []" by simp
  have idsz: "\<forall>c\<in>set (?a # ?z # []). cp_id c \<noteq> []" by simp
  have ab: "reorderCategories ex_db (Some [?a, ?b]) = (ex_db, Inl ReadAfterWrite)"
    by (rule reorder_read_after_write[OF idsb found])
  have az: "reorderCategories ex_db (Some [?a, ?z]) = (ex_db, Inl ReadAfterWrite)"
    by (rule reorder_read_after_write[OF idsz found])
  have z: "reorderCategories ex_db (Some [?z]) = (ex_db, Inl (CategoryNotFound ''Z''))"
    by (simp add: ex_defs category_defs)
  have keys: "map fst (categories ex_db) = [''A'', ''B'', ''C'']"
    by (simp add: ex_defs)
  show ?thesis
    using keys ab az z by simp
qed

subsection \<open>No guard on the quantity in the deduction\<close>

text \<open>
  Claim C9, as the code has it. Take an accepted order and a material of one of its
  items that is the only line of the order touching its product: no other material of
  the order names the product and no item orders it. The sizes of that product are
  stored with \<open>quantity of the material * quantity of the item\<close> taken off, with no guard
  on the material quantity, while the production cost of the order counts the material
  with the guarded quantity. So for a material quantity of 0 the sizes are unchanged and
  the order's cost counts \<open>cost * 1 * quantity of the item\<close> for it; for a negative
  material quantity and a positive item quantity every size of the product ends strictly
  higher than it was.
\<close>

theorem deduction_without_floor:
  assumes ok: "placeOrder db oid body = (db', Inr x)"
    and items: "b_items body = Some items"
    and pos: "items = ipre @ it # ipost" "i_materials it = mpre @ m # mpost"
    and only: "\<forall>m'\<in>set (mpre @ mpost). uid m' \<noteq> uid m"
       "\<forall>it'\<in>set (ipre @ ipost).
          i_productId it' \<noteq> uid m \<and> (\<forall>m'\<in>set (i_materials it'). uid m' \<noteq> uid m)"
       "i_productId it \<noteq> uid m"
  shows "\<exists>mp mp' od.
     inventory db (uid m) = Some mp \<and> inventory db' (uid m) = Some mp' \<and> orders db' oid = Some od \<and>
     sizes mp' = map (\<lambda>sz. sz\<lparr>s_quantity := s_quantity sz - m_quantity m * i_quantity it\<rparr>) (sizes mp) \<and>
     o_productionCost od =
       orderProductionCost (ipre @ it\<lparr>i_materials := mpre @ mpost\<rparr> # ipost)
       + cost m * (if 0 < m_quantity m then m_quantity m else 1) * i_quantity it \<and>
     (m_quantity m = 0 \<longrightarrow>
        sizes mp' = sizes mp \<and>
        o_productionCost od =
          orderProductionCost (ipre @ it\<lparr>i_materials := mpre @ mpost\<rparr> # ipost)
          + cost m * 1 * i_quantity it) \<and>
     (m_quantity m < 0 \<and> 0 < i_quantity it \<longrightarrow>
        list_all2 (\<lambda>old new. s_quantity old < s_quantity new) (sizes mp) (sizes mp'))"
proof -
  have later: "\<forall>m'\<in>set mpost. uid m' \<noteq> uid m"
    "\<forall>it'\<in>set ipost. \<forall>m'\<in>set (i_materials it'). uid m' \<noteq> uid m"
    using only by auto
  have "it \<in> set items" "m \<in> set (i_materials it)" using pos by simp_all
  from material_available[OF ok items this] obtain mp where
    mp: "inventory db (uid m) = Some mp" by blast
  define mp' where "mp' = mp\<lparr>sizes := decremented (m_quantity m * i_quantity it) (sizes mp),
               totalQuantity := Some (\<Sum>sz\<leftarrow>sizes mp. s_quantity sz - m_quantity m * i_quantity it)\<rparr>"
  have new: "inventory db' (uid m) = Some mp'"
    using last_material_write[OF ok items pos later] mp by (simp add: mp'_def)
  have szs: "sizes mp' = map (\<lambda>sz. sz\<lparr>s_quantity := s_quantity sz - m_quantity m * i_quantity it\<rparr>) (sizes mp)"
    by (simp add: mp'_def decremented_def)
  have od: "orders db' oid = Some (orderDataOf body)"
    using placeOrder_success[OF ok] by simp
  have cost: "o_productionCost (orderDataOf body) =
       orderProductionCost (ipre @ it\<lparr>i_materials := mpre @ mpost\<rparr> # ipost)
       + cost m * (if 0 < m_quantity m then m_quantity m else 1) * i_quantity it"
    using orderProductionCost_split[OF pos] items by (simp add: orderDataOf_def)
  have zero: "sizes mp' = sizes mp" if "m_quantity m = 0"
    unfolding szs using that by (simp add: map_idI)
  have neg: "list_all2 (\<lambda>old new. s_quantity old < s_quantity new) (sizes mp) (sizes mp')"
    if "m_quantity m < 0" "0 < i_quantity it"
  proof -
    have "m_quantity m * i_quantity it < 0"
      using that by (simp add: mult_neg_pos)
    then show ?thesis
      unfolding szs by (simp add: list_all2_map2 list_all2_same)
  qed
  show ?thesis
    using mp new od szs cost zero neg by auto
qed

text \<open>
  The statement at two orders of two units by a known customer: with a material quantity
  of 0 (cost 4, stock still 10) and with a material quantity of -1 (stock from 10 to 12).
\<close>

theorem deduction_without_floor_witness:
  "snd (placeOrder ex_db ''o1'' (ex_order [ex_item 2 [ex_material 0]] (Some ''c1''))) = Inr ''o1''
   \<and> o_productionCost (the (orders
        (fst (placeOrder ex_db ''o1'' (ex_order [ex_item 2 [ex_material 0]] (Some ''c1'')))) ''o1'')) = 4
   \<and> map s_quantity (sizes (the (inventory
        (fst (placeOrder ex_db ''o1'' (ex_order [ex_item 2 [ex_material 0]] (Some ''c1'')))) ''m1''))) = [10, 10]
   \<and> snd (placeOrder ex_db ''o2'' (ex_order [ex_item 2 [ex_material (- 1)]] (Some ''c1''))) = Inr ''o2''
   \<and> map s_quantity (sizes (the (inventory
        (fst (placeOrder ex_db ''o2'' (ex_order [ex_item 2 [ex_material (- 1)]] (Some ''c1'')))) ''m1''))) = [12, 12]"
proof -
  let ?it0 = "ex_item 2 [ex_material 0]"
  let ?B0 = "ex_order [?it0] (Some ''c1'')"
  let ?db0 = "fst (placeOrder ex_db ''o1'' ?B0)"
  let ?it1 = "ex_item 2 [ex_material (- 1)]"
  let ?B1 = "ex_order [?it1] (Some ''c1'')"
  let ?db1 = "fst (placeOrder ex_db ''o2'' ?B1)"
  have run0: "snd (placeOrder ex_db ''o1'' ?B0) = Inr ''o1''"
    by (simp add: ex_defs order_defs)
  have ok0: "placeOrder ex_db ''o1'' ?B0 = (?db0, Inr ''o1'')"
    by (simp add: prod_eq_iff run0)
  have run1: "snd (placeOrder ex_db ''o2'' ?B1) = Inr ''o2''"
    by (simp add: ex_defs order_defs)
  have ok1: "placeOrder ex_db ''o2'' ?B1 = (?db1, Inr ''o2'')"
    by (simp add: prod_eq_iff run1)
  have m1: "inventory ex_db ''m1'' = Some (ex_product ''vaso'' [ex_size ''caja'' 0 10 [], ex_size ''bolsa'' 0 10 []])"
    by (simp add: ex_db_def)
  from deduction_without_floor[OF ok0, of "[?it0]" "[]" ?it0 "[]" "[]" "ex_material 0" "[]"]
  have zero: "sizes (the (inventory ?db0 ''m1'')) = sizes (the (inventory ex_db ''m1''))"
    "o_productionCost (the (orders ?db0 ''o1'')) =
       orderProductionCost ([] @ ?it0\<lparr>i_materials := [] @ []\<rparr> # []) + cost (ex_material 0) * 1 * i_quantity ?it0"
    by (auto simp: ex_order_def ex_item_def ex_material_def)
  from deduction_without_floor[OF ok1, of "[?it1]" "[]" ?it1 "[]" "[]" "ex_material (- 1)" "[]"]
  have neg: "sizes (the (inventory ?db1 ''m1'')) =
       map (\<lambda>sz. sz\<lparr>s_quantity := s_quantity sz - (- 1) * 2\<rparr>) (sizes (the (inventory ex_db ''m1'')))"
    by (auto simp: ex_order_def ex_item_def ex_material_def)
  show ?thesis
    unfolding zero neg using run0 run1
    by (simp add: m1 ex_product_def ex_size_def ex_item_def ex_material_def
          orderProductionCost_def itemCost_def)
qed

text \<open>
  Claim C9 as stated lets the stock rise for every material with a negative quantity. In
  an accepted order of two units whose item lists the material product twice, with the
  quantities -1 and 3, both sizes of the product go from 10 down to 4. In an accepted
  order of zero units, which the handler does not refuse, a material quantity of -1
  leaves both sizes at 10.
\<close>

theorem deduction_floor_counterexample:
  "map s_quantity (sizes (the (inventory ex_db ''m1''))) = [10, 10]
   \<and> snd (placeOrder ex_db ''o1'' (ex_order [ex_item 2 [ex_material (- 1), ex_material 3]] (Some ''c1'')))
       = Inr ''o1''
   \<and> map s_quantity (sizes (the (inventory
        (fst (placeOrder ex_db ''o1'' (ex_order [ex_item 2 [ex_material (- 1), ex_material 3]] (Some ''c1''))))
        ''m1''))) = [4, 4]
   \<and> snd (placeOrder ex_db ''o2'' (ex_order [ex_item 0 [ex_material (- 1)]] (Some ''c1''))) = Inr ''o2''
   \<and> map s_quantity (sizes (the (inventory
        (fst (placeOrder ex_db ''o2'' (ex_order [ex_item 0 [ex_material (- 1)]] (Some ''c1'')))) ''m1'')))
       = [10, 10]"
  by (simp add: ex_defs order_defs)

subsection \<open>An order without items\<close>

text \<open>
  Claim C10, as the code has it. A request with an empty list of items is rejected by
  the input check when its payment method is missing or empty or its total is missing.
  When it passes that check and carries a non-empty customer id that names no customer,
  it fails with \<open>CustomerNotFound\<close>, the store unchanged. When it passes that check and
  carries a customer id that is empty or names a customer, it succeeds, writes an order
  document without items and with production cost 0, and leaves the inventory and the
  stock log as they were.
\<close>

theorem empty_order:
  assumes "b_items body = Some []"
  shows "(\<not> truthy (b_paymentMethod body) \<or> b_total body = None \<longrightarrow>
            placeOrder db oid body = (db, Inl MissingOrderData)) \<and>
         (truthy (b_paymentMethod body) \<and> b_total body \<noteq> None \<and> truthy (b_customerId body) \<and>
          customers db (the (b_customerId body)) = None \<longrightarrow>
            placeOrder db oid body = (db, Inl (CustomerNotFound (the (b_customerId body))))) \<and>
         (truthy (b_paymentMethod body) \<and> b_total body \<noteq> None \<and> b_customerId body \<noteq> None \<and>
          (truthy (b_customerId body) \<longrightarrow> customers db (the (b_customerId body)) \<noteq> None) \<longrightarrow>
            snd (placeOrder db oid body) = Inr oid \<and>
            orders (fst (placeOrder db oid body)) oid =
              Some \<lparr>o_items = [], paymentMethod = the (b_paymentMethod body), o_total = the (b_total body),
                    o_productionCost = 0, customerId = b_customerId body\<rparr> \<and>
            inventory (fst (placeOrder db oid body)) = inventory db \<and>
            stockLogs (fst (placeOrder db oid body)) = stockLogs db)"
  using assms
  by (auto simp: placeOrder_def runTransaction_def orderTransaction_def orderProductionCost_def
        Let_def split: option.splits)

text \<open>
  The statement at an empty order of an existing customer, and at an empty order with an
  empty payment method.
\<close>

theorem empty_order_witness:
  "snd (placeOrder ex_db ''o1'' (ex_order [] (Some ''c1''))) = Inr ''o1''
   \<and> orders (fst (placeOrder ex_db ''o1'' (ex_order [] (Some ''c1'')))) ''o1''
       = Some \<lparr>o_items = [], paymentMethod = ''efectivo'', o_total = 20, o_productionCost = 0,
               customerId = Some ''c1''\<rparr>
   \<and> inventory (fst (placeOrder ex_db ''o1'' (ex_order [] (Some ''c1'')))) = inventory ex_db
   \<and> stockLogs (fst (placeOrder ex_db ''o1'' (ex_order [] (Some ''c1'')))) = stockLogs ex_db
   \<and> placeOrder ex_db ''o1'' (ex_order [] (Some ''c1'')\<lparr>b_paymentMethod := Some []\<rparr>)
       = (ex_db, Inl MissingOrderData)"
proof -
  let ?B = "ex_order [] (Some ''c1'')"
  let ?M = "ex_order [] (Some ''c1'')\<lparr>b_paymentMethod := Some []\<rparr>"
  have h: "b_items ?B = Some []" by (simp add: ex_order_def)
  have pre: "truthy (b_paymentMethod ?B) \<and> b_total ?B \<noteq> None \<and> b_customerId ?B \<noteq> None \<and>
          (truthy (b_customerId ?B) \<longrightarrow> customers ex_db (the (b_customerId ?B)) \<noteq> None)"
    by (simp add: ex_order_def ex_db_def truthy_def)
  have hm: "b_items ?M = Some []" by (simp add: ex_order_def)
  have prem: "\<not> truthy (b_paymentMethod ?M) \<or> b_total ?M = None"
    by (simp add: ex_order_def truthy_def)
  from empty_order[OF h, of ex_db "''o1''"] pre empty_order[OF hm, of ex_db "''o1''"] prem
  show ?thesis
    by (simp add: ex_order_def)
qed

text \<open>
  Claim C10 as stated lets every request with an empty list of items, a payment method
  and a total succeed. One that also carries an unknown customer id fails.
\<close>

theorem empty_order_counterexample:
  "placeOrder ex_db ''o1'' (ex_order [] (Some ''ghost'')) = (ex_db, Inl (CustomerNotFound ''ghost''))"
  by (simp add: ex_defs order_defs)

end
